theory Spec2Isabelle
  imports Complex_Main "HOL-Library.Sublist" "HOL-Library.Multiset"
begin

section \<open>JavaScript values and library functions\<close>

text \<open>
  A JavaScript \<^verbatim>\<open>Error\<close> carries its message; every throw and every rejected promise
  of the source is a left injection of this type.
\<close>

datatype error = Error string

primrec message :: "error \<Rightarrow> string" where
  "message (Error m) = m"

text \<open>
  A string field that may be \<^verbatim>\<open>null\<close> or \<^verbatim>\<open>undefined\<close> is a \<open>string option\<close>.
  JavaScript treats \<^verbatim>\<open>null\<close>, \<^verbatim>\<open>undefined\<close> and the empty string as falsy.
\<close>

fun truthy :: "string option \<Rightarrow> bool" where
  "truthy None = False"
| "truthy (Some s) = (s \<noteq> [])"

text \<open>\<^verbatim>\<open>String(v)\<close>, as \<^verbatim>\<open>RegExp.prototype.test\<close> applies it to its argument.\<close>

fun js_string :: "string option \<Rightarrow> string" where
  "js_string None = ''null''"
| "js_string (Some s) = s"

definition endsWith :: "string \<Rightarrow> string \<Rightarrow> bool" where
  "endsWith s suf = suffix suf s"

definition startsWith :: "string \<Rightarrow> string \<Rightarrow> bool" where
  "startsWith s pre = prefix pre s"

definition includes_str :: "string \<Rightarrow> string \<Rightarrow> bool" where
  "includes_str s sub = sublist sub s"

text \<open>\<^verbatim>\<open>a || b\<close> on possibly missing strings: the first operand when truthy, else the second.\<close>

definition js_or :: "string option \<Rightarrow> string option \<Rightarrow> string option" where
  "js_or a b = (if truthy a then a else b)"

text \<open>
  The parts of the JavaScript runtime and of the npm packages that the services call as
  pure functions. They are not code of this repository, so they are parameters:
  \<^verbatim>\<open>new RegExp(pattern, flags)\<close> (throws on a pattern that does not compile, else gives
  the \<^verbatim>\<open>test\<close> predicate), \<^verbatim>\<open>parseInt\<close> (\<open>None\<close> is \<^verbatim>\<open>NaN\<close>), the hex MD5
  digest, and \<^verbatim>\<open>new URL(url)\<close> with the two parts \<^verbatim>\<open>parseFeed\<close> reads.
\<close>

record parsed_url =
  protocol :: string
  hostname :: string

record jslib =
  RegExp :: "string \<Rightarrow> string \<Rightarrow> error + (string \<Rightarrow> bool)"
  parseInt :: "string \<Rightarrow> int option"
  md5_hex :: "string \<Rightarrow> string"
  URL_parse :: "string \<Rightarrow> error + parsed_url"

section \<open>Feed items and match rules (rss-manager.js)\<close>

record enclosure =
  enc_type :: "string option"
  enc_url :: "string option"
  enc_length :: "string option"

text \<open>
  The item as \<^verbatim>\<open>parseFeed\<close> builds it. \<^verbatim>\<open>pubDate\<close> and \<^verbatim>\<open>description\<close> are
  carried along by the source and read nowhere; they are left out.
\<close>

record item =
  title :: "string option"
  link :: "string option"
  guid :: "string option"
  enclosures :: "enclosure list option"

record rules =
  regex :: string
  minSize :: int
  maxSize :: int
  category :: string

datatype match_result =
    Matched string
  | NoMatch string
  | MatchError string

text \<open>\<^verbatim>\<open>e.type === 'application/x-bittorrent' || e.url?.endsWith('.torrent')\<close>\<close>

definition is_torrent_enclosure :: "enclosure \<Rightarrow> bool" where
  "is_torrent_enclosure e =
     (enc_type e = Some ''application/x-bittorrent'' \<or>
      (case enc_url e of None \<Rightarrow> False | Some u \<Rightarrow> endsWith u ''.torrent''))"

text \<open>\<^verbatim>\<open>item.enclosures?.find(...)\<close>: a missing array finds nothing.\<close>

definition find_torrent_enclosure :: "item \<Rightarrow> enclosure option" where
  "find_torrent_enclosure it =
     (case enclosures it of None \<Rightarrow> None | Some es \<Rightarrow> find is_torrent_enclosure es)"

text \<open>The download endpoints of Method 3.\<close>

definition has_download_marker :: "string \<Rightarrow> bool" where
  "has_download_marker l =
     (includes_str l ''/download/'' \<or> includes_str l ''action=download'' \<or>
      includes_str l ''rss_dl.php'' \<or> includes_str l ''/dl/'' \<or>
      includes_str l ''download.php'')"

text \<open>
  \<^verbatim>\<open>matchesRules(item, rules)\<close>. The three assignments to \<^verbatim>\<open>torrentUrl\<close> are
  \<open>url1\<close>, \<open>url2\<close>, \<open>url3\<close>; \<^verbatim>\<open>torrentSize\<close> is set by Method 1 only. The
  \<^verbatim>\<open>catch\<close> turns the one throw of the body, a pattern that does not compile, into
  the reason \<^verbatim>\<open>'error'\<close>. \<^verbatim>\<open>NaN\<close> compares false both ways, so an unparsable
  size passes.
\<close>

definition matchesRules :: "jslib \<Rightarrow> item \<Rightarrow> rules \<Rightarrow> match_result" where
  "matchesRules lib it r =
     (case RegExp lib (regex r) ''i'' of
        Inl e \<Rightarrow> MatchError (message e)
      | Inr test \<Rightarrow>
          if \<not> test (js_string (title it)) then NoMatch ''regex''
          else
            let torrentEnclosure = find_torrent_enclosure it;
                url1 = (case torrentEnclosure of None \<Rightarrow> None | Some e \<Rightarrow> enc_url e);
                torrentSize = (case torrentEnclosure of None \<Rightarrow> None | Some e \<Rightarrow> enc_length e);
                url2 = (if \<not> truthy url1 \<and> truthy (link it) \<and> endsWith (js_string (link it)) ''.torrent''
                        then link it else url1);
                url3 = (if \<not> truthy url2 \<and> truthy (link it) \<and> has_download_marker (js_string (link it))
                        then link it else url2)
            in if \<not> truthy url3 then NoMatch ''no-torrent-link''
               else if truthy torrentSize \<and>
                       (case parseInt lib (js_string torrentSize) of
                          None \<Rightarrow> False
                        | Some sz \<Rightarrow> sz < minSize r \<or> sz > maxSize r)
                 then NoMatch ''size''
               else Matched (js_string url3))"

section \<open>The world outside the process\<close>

text \<open>
  What the torrent daemon reports for one torrent. A missing string field is the empty
  string, which JavaScript treats as falsy like \<^verbatim>\<open>undefined\<close>.
\<close>

record torrent =
  torrent_id :: int
  hashString :: string
  torrent_name :: string
  downloadDir :: string
  percentDone :: rat
  totalSize :: int

text \<open>The three session keys the services read: download-dir, incomplete-dir, incomplete-dir-enabled.\<close>

record session =
  download_dir :: string
  incomplete_dir :: string
  incomplete_dir_enabled :: bool

record statfs =
  blocks :: int
  bsize :: int
  bavail :: int

text \<open>What \<^verbatim>\<open>fetch\<close> resolves to: \<^verbatim>\<open>response.ok\<close>, the status as printed, and what
  the feed parser makes of the body (an error event, or the items it read).\<close>

record response =
  resp_ok :: bool
  resp_status :: string
  resp_body :: "error + item list"

text \<open>
  The daemon, the file system, the network and the clock are outside the program. They
  are an arbitrary state \<open>'w\<close> with one operation for every call the services make; every
  operation returns the new state, so the world may change at each \<^verbatim>\<open>await\<close>.
  \<open>rpc_get\<close> gives \<^verbatim>\<open>result.torrents\<close> (the empty list when it is missing).
  \<open>TRANSMISSION_CONFIG_DIR\<close> is the module constant of that name.
\<close>

record 'w env =
  rpc_get_all :: "'w \<Rightarrow> (error + torrent list) \<times> 'w"
  rpc_get :: "int \<Rightarrow> 'w \<Rightarrow> (error + torrent list) \<times> 'w"
  rpc_remove :: "int \<Rightarrow> bool \<Rightarrow> 'w \<Rightarrow> (error + unit) \<times> 'w"
  rpc_stop :: "int \<Rightarrow> 'w \<Rightarrow> (error + unit) \<times> 'w"
  rpc_session :: "'w \<Rightarrow> (error + session) \<times> 'w"
  rpc_addUrl :: "string \<Rightarrow> 'w \<Rightarrow> (error + torrent) \<times> 'w"
  fs_unlink :: "string \<Rightarrow> 'w \<Rightarrow> (error + unit) \<times> 'w"
  fs_rm :: "string \<Rightarrow> 'w \<Rightarrow> (error + unit) \<times> 'w"
  fs_statfs :: "string \<Rightarrow> 'w \<Rightarrow> (error + statfs) \<times> 'w"
  exec_restart :: "'w \<Rightarrow> (error + unit) \<times> 'w"
  dns_lookup :: "string \<Rightarrow> 'w \<Rightarrow> (error + string) \<times> 'w"
  http_fetch :: "string \<Rightarrow> 'w \<Rightarrow> (error + response) \<times> 'w"
  clock_now :: "'w \<Rightarrow> int \<times> 'w"
  sleep_ms :: "nat \<Rightarrow> 'w \<Rightarrow> unit \<times> 'w"
  TRANSMISSION_CONFIG_DIR :: string

section \<open>The feed store (rss-manager.js)\<close>

record feed =
  feed_id :: int
  feed_url :: string
  feed_rules :: rules
  feed_added_at :: int
  last_poll :: "int option"
  matched_count :: nat

record seen_item =
  seen_feed_id :: int
  seen_at :: int

record store =
  feeds :: "feed list"
  seenItems :: "string \<rightharpoonup> seen_item"
  nextId :: int

text \<open>
  What \<^verbatim>\<open>JSON.parse\<close> can return for the store's file. \<open>Store d\<close> is an object of
  the store's shape. \<open>NotStore v\<close> is any other JSON value without a \<^verbatim>\<open>feeds\<close>
  property: \<^verbatim>\<open>null\<close>, a boolean, a number, a string, an array, the object
  \<^verbatim>\<open>{}\<close>. An object that has some of the store's properties and not its shape is left
  out: what the callers do with it depends on which properties it has.
\<close>

datatype other_json =
    JNull
  | JBool bool
  | JNumber int
  | JString string
  | JArray "other_json list"
  | JEmptyObject

datatype data_value = Store store | NotStore other_json

text \<open>
  The text of the store's file: what \<^verbatim>\<open>JSON.stringify\<close> wrote for a store, the text of
  another JSON value, or text that \<^verbatim>\<open>JSON.parse\<close> rejects with the given error.
\<close>

datatype json_text = Json store | Json_other other_json | Garbage error

fun JSON_parse :: "json_text \<Rightarrow> error + data_value" where
  "JSON_parse (Json d) = Inr (Store d)"
| "JSON_parse (Json_other v) = Inr (NotStore v)"
| "JSON_parse (Garbage e) = Inl e"

text \<open>
  \<^verbatim>\<open>data.feeds.find(...)\<close>, \<^verbatim>\<open>data.feeds.findIndex(...)\<close>: reading \<^verbatim>\<open>feeds\<close> of
  \<^verbatim>\<open>null\<close> throws a \<^verbatim>\<open>TypeError\<close>; of any other value that has no such property it
  gives \<^verbatim>\<open>undefined\<close>, and the method call on that throws a \<^verbatim>\<open>TypeError\<close>. The
  messages are V8's, without their quotation marks.
\<close>

fun data_feeds :: "string \<Rightarrow> data_value \<Rightarrow> error + store" where
  "data_feeds method (Store d) = Inr d"
| "data_feeds method (NotStore JNull)
     = Inl (Error ''Cannot read properties of null (reading feeds)'')"
| "data_feeds method (NotStore v)
     = Inl (Error (''Cannot read properties of undefined (reading '' @ method @ '')''))"

definition JSON_stringify :: "store \<Rightarrow> json_text" where
  "JSON_stringify d = Json d"

section \<open>The ownership ledger (torrent-metadata.js)\<close>

text \<open>
  Modelled from the spec: torrent-metadata.js is not among the sources. The spec's
  Ownership Record is keyed by the engine's content identifier and holds the owning user,
  a username snapshot, the acquisition timestamp and the auto-removal-exempt flag; the
  callers read the fields \<^verbatim>\<open>added_at\<close> and \<^verbatim>\<open>block_auto_remove\<close>.
\<close>

record meta =
  owner_id :: int
  owner_username :: string
  added_at :: "int option"
  block_auto_remove :: bool

section \<open>The state of the process\<close>

text \<open>The calls that leave the process, and the in-memory write of the seen-ledger.\<close>

datatype effect =
    RpcGetAll
  | RpcGet int
  | RpcRemove int bool
  | RpcStop int
  | RpcSession
  | RpcAddUrl string
  | Unlink string
  | Rm string
  | Statfs string
  | ExecRestart
  | Sleep nat
  | DnsLookup string
  | HttpFetch string
  | WriteFile store
  | MarkSeen string

text \<open>
  \<open>client\<close>: whether \<^verbatim>\<open>this.client\<close> holds a handle. \<open>restartTimeout\<close> and
  \<open>restartPromise\<close> are the module variables of transmission.js (a handle, or
  \<^verbatim>\<open>null\<close>); \<open>timers\<close> are the timeouts the runtime has pending, \<open>restarting\<close> counts
  the timeout callbacks that have started and not finished, \<open>next_handle\<close> names the next
  timeout or promise. \<open>feeds_file\<close> is what \<^verbatim>\<open>readFileSync\<close> gives for the store's
  path, \<open>write_error\<close> what \<^verbatim>\<open>writeFileSync\<close> throws, if anything. \<open>log\<close> records the
  effects in the order they happen.
\<close>

record 'w sys =
  world :: 'w
  client :: bool
  restartTimeout :: "nat option"
  restartPromise :: "nat option"
  timers :: "nat list"
  restarting :: nat
  next_handle :: nat
  metadata :: "string \<rightharpoonup> meta"
  feeds_file :: "error + json_text"
  write_error :: "error option"
  log :: "effect list"

definition call :: "('w \<Rightarrow> 'a \<times> 'w) \<Rightarrow> effect \<Rightarrow> 'w sys \<Rightarrow> 'a \<times> 'w sys" where
  "call f ev s = (fst (f (world s)), s\<lparr>world := snd (f (world s)), log := log s @ [ev]\<rparr>)"

text \<open>A daemon call goes through \<^verbatim>\<open>getClient()\<close>, which creates the handle when there is none.\<close>

definition rpc :: "('w \<Rightarrow> 'a \<times> 'w) \<Rightarrow> effect \<Rightarrow> 'w sys \<Rightarrow> 'a \<times> 'w sys" where
  "rpc f ev s = call f ev (s\<lparr>client := True\<rparr>)"

definition read_clock :: "'w env \<Rightarrow> 'w sys \<Rightarrow> int \<times> 'w sys" where
  "read_clock env s = (fst (clock_now env (world s)), s\<lparr>world := snd (clock_now env (world s))\<rparr>)"

definition sleep :: "'w env \<Rightarrow> nat \<Rightarrow> 'w sys \<Rightarrow> 'w sys" where
  "sleep env ms s = snd (call (sleep_ms env ms) (Sleep ms) s)"

text \<open>\<^verbatim>\<open>path.join\<close> of two segments.\<close>

definition join :: "string \<Rightarrow> string \<Rightarrow> string" where
  "join a b = a @ ''/'' @ b"

section \<open>The torrent engine client (transmission.js)\<close>

subsection \<open>The debounced restart\<close>

text \<open>
  \<^verbatim>\<open>scheduleTransmissionRestart()\<close>: the promise it returns is the first component.
  The promise executor runs at once: it sets the timeout, then the promise is stored.
\<close>

definition scheduleTransmissionRestart :: "'w sys \<Rightarrow> nat option \<times> 'w sys" where
  "scheduleTransmissionRestart s =
     (case restartTimeout s of
        Some t \<Rightarrow> (restartPromise s, s)
      | None \<Rightarrow>
          let p = next_handle s; t = Suc p
          in (Some p, s\<lparr>restartTimeout := Some t, restartPromise := Some p,
                        timers := timers s @ [t], next_handle := Suc t\<rparr>))"

text \<open>
  The timeout's callback runs in two steps of the event loop. \<open>timer_fires\<close>: the oldest
  pending timeout expires and the callback runs up to its first \<^verbatim>\<open>await\<close>, the
  restart command. \<open>restart_finishes\<close>: the command has returned (and, when it succeeded,
  the three-second sleep is over); the callback clears both variables and resolves.
\<close>

definition timer_fires :: "'w env \<Rightarrow> 'w sys \<Rightarrow> 'w sys" where
  "timer_fires env s =
     (case timers s of
        [] \<Rightarrow> s
      | t # ts \<Rightarrow> snd (call (exec_restart env) ExecRestart (s\<lparr>timers := ts, restarting := Suc (restarting s)\<rparr>)))"

definition restart_finishes :: "'w sys \<Rightarrow> 'w sys" where
  "restart_finishes s =
     (if restarting s = 0 then s
      else s\<lparr>restarting := restarting s - 1, restartTimeout := None, restartPromise := None\<rparr>)"

subsection \<open>The client's calls\<close>

definition getTorrents :: "'w env \<Rightarrow> 'w sys \<Rightarrow> (error + torrent list) \<times> 'w sys" where
  "getTorrents env s = rpc (rpc_get_all env) RpcGetAll s"

definition getTorrentDetails :: "'w env \<Rightarrow> int \<Rightarrow> 'w sys \<Rightarrow> (error + torrent) \<times> 'w sys" where
  "getTorrentDetails env i s =
     (case rpc (rpc_get env i) (RpcGet i) s of
        (Inl e, s1) \<Rightarrow> (Inl e, s1)
      | (Inr [], s1) \<Rightarrow> (Inl (Error ''Torrent not found''), s1)
      | (Inr (t # ts), s1) \<Rightarrow> (Inr t, s1))"

definition addTorrentUrl :: "'w env \<Rightarrow> string \<Rightarrow> 'w sys \<Rightarrow> (error + torrent) \<times> 'w sys" where
  "addTorrentUrl env u s = rpc (rpc_addUrl env u) (RpcAddUrl u) s"

definition stopTorrent :: "'w env \<Rightarrow> int \<Rightarrow> 'w sys \<Rightarrow> (error + unit) \<times> 'w sys" where
  "stopTorrent env i s = rpc (rpc_stop env i) (RpcStop i) s"

definition getServerStats :: "'w env \<Rightarrow> 'w sys \<Rightarrow> (error + session) \<times> 'w sys" where
  "getServerStats env s = rpc (rpc_session env) RpcSession s"

subsection \<open>removeTorrent\<close>

text \<open>
  Step 2 of \<^verbatim>\<open>removeTorrent\<close>: the value of \<^verbatim>\<open>normalRemovalSucceeded\<close> after the
  \<^verbatim>\<open>try\<close>. The daemon's remove call, half a second of sleep, then the torrent is
  looked up again: found means the removal did not happen.
\<close>

definition normal_removal :: "'w env \<Rightarrow> int \<Rightarrow> bool \<Rightarrow> 'w sys \<Rightarrow> bool \<times> 'w sys" where
  "normal_removal env i deleteFiles s =
     (case rpc (rpc_remove env i deleteFiles) (RpcRemove i deleteFiles) s of
        (Inl e, s1) \<Rightarrow> (False, s1)
      | (Inr u, s1) \<Rightarrow>
          (case getTorrentDetails env i (sleep env 500 s1) of
             (Inr t, s2) \<Rightarrow> (False, s2)
           | (Inl e, s2) \<Rightarrow> (True, s2)))"

text \<open>
  The deletion of the downloaded files inside Step 3. Each \<^verbatim>\<open>try\<close> logs its error
  and goes on, so only the state is kept of each call.
\<close>

definition delete_downloaded :: "'w env \<Rightarrow> string \<Rightarrow> string \<Rightarrow> rat \<Rightarrow> 'w sys \<Rightarrow> 'w sys" where
  "delete_downloaded env dir nm pd s =
     (case getServerStats env (snd (call (fs_rm env (join dir nm)) (Rm (join dir nm)) s)) of
        (Inl e, s1) \<Rightarrow> s1
      | (Inr sess, s1) \<Rightarrow>
          if incomplete_dir_enabled sess \<and> incomplete_dir sess \<noteq> [] \<and> pd < 1
          then snd (call (fs_rm env (join (incomplete_dir sess) nm)) (Rm (join (incomplete_dir sess) nm)) s1)
          else s1)"

text \<open>Step 3, the workaround: stop, delete the resume and torrent files, delete the data
  when asked, schedule the restart (the promise is not awaited), drop the handle.\<close>

definition workaround ::
  "'w env \<Rightarrow> int \<Rightarrow> bool \<Rightarrow> string \<Rightarrow> string option \<Rightarrow> string option \<Rightarrow> rat \<Rightarrow> 'w sys \<Rightarrow> 'w sys" where
  "workaround env i deleteFiles torrentHash dir nm pd s =
     (let resumeFile = join (join (TRANSMISSION_CONFIG_DIR env) ''resume'') (torrentHash @ ''.resume'');
          torrentFile = join (join (TRANSMISSION_CONFIG_DIR env) ''torrents'') (torrentHash @ ''.torrent'');
          s1 = snd (stopTorrent env i s);
          s2 = snd (call (fs_unlink env resumeFile) (Unlink resumeFile) s1);
          s3 = snd (call (fs_unlink env torrentFile) (Unlink torrentFile) s2);
          s4 = (if deleteFiles \<and> truthy dir \<and> truthy nm
                then delete_downloaded env (js_string dir) (js_string nm) pd s3 else s3);
          s5 = snd (scheduleTransmissionRestart s4)
      in s5\<lparr>client := False\<rparr>)"

record remove_result =
  success :: bool

text \<open>
  \<^verbatim>\<open>removeTorrent(id, deleteFiles)\<close>. Step 1 leaves the four variables at their
  initial values when the lookup fails.
\<close>

definition removeTorrent :: "'w env \<Rightarrow> int \<Rightarrow> bool \<Rightarrow> 'w sys \<Rightarrow> (error + remove_result) \<times> 'w sys" where
  "removeTorrent env i deleteFiles s =
     (let d = getTorrentDetails env i s;
          torrentHash = (case fst d of Inl e \<Rightarrow> None | Inr t \<Rightarrow> Some (hashString t));
          dir = (case fst d of Inl e \<Rightarrow> None | Inr t \<Rightarrow> Some (downloadDir t));
          nm = (case fst d of Inl e \<Rightarrow> None | Inr t \<Rightarrow> Some (torrent_name t));
          pd = (case fst d of Inl e \<Rightarrow> 0 | Inr t \<Rightarrow> percentDone t);
          n = normal_removal env i deleteFiles (snd d);
          s3 = (if \<not> fst n \<and> truthy torrentHash
                then workaround env i deleteFiles (js_string torrentHash) dir nm pd (snd n)
                else snd n)
      in (Inr \<lparr>success = True\<rparr>, s3))"

section \<open>The disk pressure monitor (DiskMonitor)\<close>

text \<open>A JavaScript number that may be \<^verbatim>\<open>NaN\<close> is a \<open>rat option\<close>; \<^verbatim>\<open>NaN >= x\<close> and
  \<^verbatim>\<open>x >= NaN\<close> are false.\<close>

fun js_ge :: "rat option \<Rightarrow> rat option \<Rightarrow> bool" where
  "js_ge (Some a) (Some b) = (a \<ge> b)"
| "js_ge a b = False"

text \<open>\<^verbatim>\<open>a < b\<close> on such numbers: false as well when either is \<^verbatim>\<open>NaN\<close>. The source
  does not use it; it states ``strictly below the threshold''.\<close>

fun js_lt :: "rat option \<Rightarrow> rat option \<Rightarrow> bool" where
  "js_lt (Some a) (Some b) = (a < b)"
| "js_lt a b = False"

record disk_usage =
  du_total :: int
  du_used :: int
  du_free :: int
  freePercent :: "rat option"

text \<open>The constructor: \<^verbatim>\<open>parseFloat(process.env.DISK_THRESHOLD || '10')\<close>, given the
  runtime's \<^verbatim>\<open>parseFloat\<close> and the variable.\<close>

definition DiskMonitor_threshold :: "(string \<Rightarrow> rat option) \<Rightarrow> string option \<Rightarrow> rat option" where
  "DiskMonitor_threshold parseFloat v = parseFloat (js_string (js_or v (Some ''10'')))"

text \<open>
  \<^verbatim>\<open>getDiskUsage(path)\<close>: never throws. A file system of no blocks gives
  \<^verbatim>\<open>0 / 0\<close>, which is \<^verbatim>\<open>NaN\<close>.
\<close>

definition getDiskUsage :: "'w env \<Rightarrow> string \<Rightarrow> 'w sys \<Rightarrow> disk_usage \<times> 'w sys" where
  "getDiskUsage env path s =
     (case call (fs_statfs env path) (Statfs path) s of
        (Inr stats, s1) \<Rightarrow>
          (let totalBytes = blocks stats * bsize stats;
               freeBytes = bavail stats * bsize stats
           in \<lparr>du_total = totalBytes, du_used = totalBytes - freeBytes, du_free = freeBytes,
               freePercent = (if totalBytes = 0 then None
                              else Some (of_int freeBytes / of_int totalBytes * 100))\<rparr>, s1)
      | (Inl e, s1) \<Rightarrow>
          (\<lparr>du_total = 1000000000000, du_used = 900000000000, du_free = 100000000000,
            freePercent = Some 10\<rparr>, s1))"

text \<open>
  Modelled from the spec: \<^verbatim>\<open>deleteTorrentMetadata\<close> and \<^verbatim>\<open>setTorrentMetadata\<close> of
  torrent-metadata.js, which is not among the sources. The Ownership Record is deleted
  when the torrent is removed, and created with the acquisition timestamp and no
  exemption when a torrent is enqueued. \<^verbatim>\<open>getAllTorrentMetadata()\<close> is the field
  \<open>metadata\<close>.
\<close>

definition deleteTorrentMetadata :: "string \<Rightarrow> 'w sys \<Rightarrow> 'w sys" where
  "deleteTorrentMetadata h s = s\<lparr>metadata := (metadata s)(h := None)\<rparr>"

definition setTorrentMetadata :: "'w env \<Rightarrow> string \<Rightarrow> int \<Rightarrow> string \<Rightarrow> 'w sys \<Rightarrow> 'w sys" where
  "setTorrentMetadata env h uid uname s =
     (let c = read_clock env s
      in (snd c)\<lparr>metadata := (metadata (snd c))(h \<mapsto>
            \<lparr>owner_id = uid, owner_username = uname, added_at = Some (fst c),
             block_auto_remove = False\<rparr>)\<rparr>)"

text \<open>A candidate: the torrent with the \<^verbatim>\<open>added_at\<close> that the \<^verbatim>\<open>map\<close> gives it.
  Timestamps are milliseconds, as \<^verbatim>\<open>new Date(...)\<close> reads them for the comparison.\<close>

record candidate =
  cand_torrent :: torrent
  cand_added_at :: int

text \<open>\<^verbatim>\<open>t.percentDone === 1 && (!meta || !meta.block_auto_remove)\<close>\<close>

definition eligible :: "(string \<rightharpoonup> meta) \<Rightarrow> torrent \<Rightarrow> bool" where
  "eligible md t =
     (percentDone t = 1 \<and> (case md (hashString t) of None \<Rightarrow> True | Some m \<Rightarrow> \<not> block_auto_remove m))"

text \<open>The \<^verbatim>\<open>map\<close>: \<^verbatim>\<open>metadata[t.hashString]?.added_at || new Date().toISOString()\<close>; the
  clock is read only for a torrent without a timestamp.\<close>

fun stamp :: "'w env \<Rightarrow> (string \<rightharpoonup> meta) \<Rightarrow> torrent list \<Rightarrow> 'w sys \<Rightarrow> candidate list \<times> 'w sys" where
  "stamp env md [] s = ([], s)"
| "stamp env md (t # ts) s =
     (case (case md (hashString t) of None \<Rightarrow> None | Some m \<Rightarrow> added_at m) of
        Some a \<Rightarrow>
          (\<lparr>cand_torrent = t, cand_added_at = a\<rparr> # fst (stamp env md ts s), snd (stamp env md ts s))
      | None \<Rightarrow>
          (\<lparr>cand_torrent = t, cand_added_at = fst (read_clock env s)\<rparr>
             # fst (stamp env md ts (snd (read_clock env s))),
           snd (stamp env md ts (snd (read_clock env s)))))"

text \<open>\<^verbatim>\<open>getAutoRemovalCandidates()\<close>. \<^verbatim>\<open>Array.prototype.sort\<close> is stable, as
  \<open>sort_key\<close> is.\<close>

definition getAutoRemovalCandidates :: "'w env \<Rightarrow> 'w sys \<Rightarrow> (error + candidate list) \<times> 'w sys" where
  "getAutoRemovalCandidates env s =
     (case getTorrents env s of
        (Inl e, s1) \<Rightarrow> (Inl e, s1)
      | (Inr torrents, s1) \<Rightarrow>
          (let st = stamp env (metadata s1) (filter (eligible (metadata s1)) torrents) s1
           in (Inr (sort_key cand_added_at (fst st)), snd st)))"

record removed_entry =
  re_id :: int
  re_name :: string
  re_size :: int

definition entry_of :: "candidate \<Rightarrow> removed_entry" where
  "entry_of c = \<lparr>re_id = torrent_id (cand_torrent c), re_name = torrent_name (cand_torrent c),
                 re_size = totalSize (cand_torrent c)\<rparr>"

text \<open>
  The \<^verbatim>\<open>for\<close> loop of \<^verbatim>\<open>autoRemoveOldestTorrents\<close>. It returns the \<^verbatim>\<open>removed\<close>
  array and, beside it, the free percentages it measured, one after each removal, in
  order (the source compares each with the threshold and keeps none). A throw inside the
  \<^verbatim>\<open>try\<close> is logged and the loop goes on with the next candidate.
\<close>

fun remove_loop ::
  "'w env \<Rightarrow> rat option \<Rightarrow> string \<Rightarrow> candidate list \<Rightarrow> removed_entry list \<Rightarrow> rat option list \<Rightarrow> 'w sys
    \<Rightarrow> removed_entry list \<times> rat option list \<times> 'w sys" where
  "remove_loop env threshold dir [] removed usages s = (removed, usages, s)"
| "remove_loop env threshold dir (c # cs) removed usages s =
     (case removeTorrent env (torrent_id (cand_torrent c)) True s of
        (Inl e, s1) \<Rightarrow> remove_loop env threshold dir cs removed usages s1
      | (Inr r, s1) \<Rightarrow>
          (case getDiskUsage env dir (deleteTorrentMetadata (hashString (cand_torrent c)) s1) of
             (newDiskUsage, s2) \<Rightarrow>
               if js_ge (freePercent newDiskUsage) threshold
               then (removed @ [entry_of c], usages @ [freePercent newDiskUsage], s2)
               else remove_loop env threshold dir cs (removed @ [entry_of c])
                      (usages @ [freePercent newDiskUsage]) s2))"

text \<open>
  The three objects \<^verbatim>\<open>autoRemoveOldestTorrents\<close> returns:
  \<^verbatim>\<open>{ removed: 0, message: 'Disk space above threshold' }\<close>,
  \<^verbatim>\<open>{ removed: 0, message: 'No eligible torrents to remove' }\<close> and
  \<^verbatim>\<open>{ removed: removed.length, torrents: removed, message }\<close>.
\<close>

datatype evict_report =
    AboveThreshold
  | NoEligible
  | Removed "removed_entry list"

fun removed_count :: "evict_report \<Rightarrow> nat" where
  "removed_count AboveThreshold = 0"
| "removed_count NoEligible = 0"
| "removed_count (Removed es) = length es"

definition autoRemoveOldestTorrents ::
  "'w env \<Rightarrow> rat option \<Rightarrow> 'w sys \<Rightarrow> (error + evict_report) \<times> 'w sys" where
  "autoRemoveOldestTorrents env threshold s =
     (case getServerStats env s of
        (Inl e, s1) \<Rightarrow> (Inl e, s1)
      | (Inr sess, s1) \<Rightarrow>
          (let dir = (if download_dir sess \<noteq> [] then download_dir sess else ''/downloads'');
               du = getDiskUsage env dir s1
           in if js_ge (freePercent (fst du)) threshold then (Inr AboveThreshold, snd du)
              else
                (case getAutoRemovalCandidates env (snd du) of
                   (Inl e, s3) \<Rightarrow> (Inl e, s3)
                 | (Inr candidates, s3) \<Rightarrow>
                     if candidates = [] then (Inr NoEligible, s3)
                     else (Inr (Removed (fst (remove_loop env threshold dir candidates [] [] s3))),
                           snd (snd (remove_loop env threshold dir candidates [] [] s3))))))"

section \<open>The feed manager (rss-manager.js)\<close>

subsection \<open>The egress guard\<close>

text \<open>The \<^verbatim>\<open>i\<close> flag: an ASCII letter of the pattern matches in either case.\<close>

definition lower_char :: "char \<Rightarrow> char" where
  "lower_char c =
     (if 65 \<le> (of_char c :: nat) \<and> (of_char c :: nat) \<le> 90
      then (case c of Char b0 b1 b2 b3 b4 b5 b6 b7 \<Rightarrow> Char b0 b1 b2 b3 b4 True b6 b7)
      else c)"

definition startsWith_ci :: "string \<Rightarrow> string \<Rightarrow> bool" where
  "startsWith_ci s pre = prefix (map lower_char pre) (map lower_char s)"

text \<open>
  \<^verbatim>\<open>PRIVATE_IP_RANGES\<close>, one predicate for each regular expression, in the source's
  order. Each expression is anchored at the start; the third one reads
  \<^verbatim>\<open>/^172\.(1[6-9]|2[0-9]|3[0-1])\./\<close>, and \<^verbatim>\<open>/^::1$/\<close> is anchored at both ends.
\<close>

definition class_b_octets :: "string list" where
  "class_b_octets = [''16'', ''17'', ''18'', ''19'', ''20'', ''21'', ''22'', ''23'', ''24'', ''25'',
                     ''26'', ''27'', ''28'', ''29'', ''30'', ''31'']"

definition PRIVATE_IP_RANGES :: "(string \<Rightarrow> bool) list" where
  "PRIVATE_IP_RANGES =
     [\<lambda>ip. startsWith ip ''127.'',
      \<lambda>ip. startsWith ip ''10.'',
      \<lambda>ip. list_ex (\<lambda>o2. startsWith ip (''172.'' @ o2 @ ''.'')) class_b_octets,
      \<lambda>ip. startsWith ip ''192.168.'',
      \<lambda>ip. startsWith ip ''169.254.'',
      \<lambda>ip. startsWith ip ''0.'',
      \<lambda>ip. startsWith ip ''224.'',
      \<lambda>ip. startsWith ip ''240.'',
      \<lambda>ip. ip = ''::1'',
      \<lambda>ip. startsWith_ci ip ''fe80:'',
      \<lambda>ip. startsWith_ci ip ''fc00:'',
      \<lambda>ip. startsWith_ci ip ''fd00:'']"

definition isPrivateIP :: "string \<Rightarrow> bool" where
  "isPrivateIP ip = list_ex (\<lambda>rx. rx ip) PRIVATE_IP_RANGES"

text \<open>
  \<^verbatim>\<open>parseFeed(url)\<close>. The error thrown for a private address passes through the inner
  \<^verbatim>\<open>catch\<close>, which rethrows it because its message contains \<^verbatim>\<open>private\<close>; so does a
  lookup error whose message contains that word. \<open>http_fetch\<close> stands for the request
  with its timeout, size and redirect bounds. The items are built with
  \<^verbatim>\<open>guid: item.guid || item.link\<close>.
\<close>

definition parseFeed :: "jslib \<Rightarrow> 'w env \<Rightarrow> string \<Rightarrow> 'w sys \<Rightarrow> (error + item list) \<times> 'w sys" where
  "parseFeed lib env u s =
     (case URL_parse lib u of
        Inl e \<Rightarrow> (Inl e, s)
      | Inr parsedUrl \<Rightarrow>
          if protocol parsedUrl \<noteq> ''http:'' \<and> protocol parsedUrl \<noteq> ''https:''
          then (Inl (Error ''Only HTTP and HTTPS URLs are allowed''), s)
          else
            (case call (dns_lookup env (hostname parsedUrl)) (DnsLookup (hostname parsedUrl)) s of
               (Inl dnsError, s1) \<Rightarrow>
                 (if includes_str (message dnsError) ''private'' then (Inl dnsError, s1)
                  else (Inl (Error (''DNS lookup failed: '' @ message dnsError)), s1))
             | (Inr address, s1) \<Rightarrow>
                 if isPrivateIP address
                 then (Inl (Error ''Access to private/internal networks is not allowed''), s1)
                 else
                   (case call (http_fetch env u) (HttpFetch u) s1 of
                      (Inl e, s2) \<Rightarrow> (Inl e, s2)
                    | (Inr resp, s2) \<Rightarrow>
                        if \<not> resp_ok resp then (Inl (Error (''HTTP '' @ resp_status resp)), s2)
                        else
                          (case resp_body resp of
                             Inl e \<Rightarrow> (Inl e, s2)
                           | Inr raw \<Rightarrow>
                               (Inr (map (\<lambda>it. it\<lparr>guid := js_or (guid it) (link it)\<rparr>) raw), s2)))))"

subsection \<open>Loading and saving the store\<close>

definition empty_store :: store where
  "empty_store = \<lparr>feeds = [], seenItems = Map.empty, nextId = 1\<rparr>"

text \<open>The \<^verbatim>\<open>try\<close> block of \<^verbatim>\<open>load()\<close>: \<^verbatim>\<open>readFileSync\<close>, then \<^verbatim>\<open>JSON.parse\<close>;
  either may throw.\<close>

definition load_try :: "'w sys \<Rightarrow> error + data_value" where
  "load_try s = (case feeds_file s of Inl e \<Rightarrow> Inl e | Inr txt \<Rightarrow> JSON_parse txt)"

text \<open>\<^verbatim>\<open>load()\<close>: the \<^verbatim>\<open>catch\<close> logs the error and returns a fresh empty store.
  What the \<^verbatim>\<open>try\<close> block returns is handed on as it is.\<close>

definition load :: "'w sys \<Rightarrow> error + data_value" where
  "load s = (case load_try s of Inl e \<Rightarrow> Inr (Store empty_store) | Inr data \<Rightarrow> Inr data)"

text \<open>\<^verbatim>\<open>save(data)\<close>: one \<^verbatim>\<open>writeFileSync\<close> of the whole store.\<close>

definition save :: "store \<Rightarrow> 'w sys \<Rightarrow> (error + unit) \<times> 'w sys" where
  "save d s =
     (case write_error s of
        Some e \<Rightarrow> (Inl e, s)
      | None \<Rightarrow> (Inr (), s\<lparr>feeds_file := Inr (JSON_stringify d), log := log s @ [WriteFile d]\<rparr>))"

subsection \<open>deleteFeed\<close>

text \<open>\<^verbatim>\<open>findIndex\<close>: \<open>None\<close> is the source's \<^verbatim>\<open>-1\<close>.\<close>

fun findIndex :: "('a \<Rightarrow> bool) \<Rightarrow> 'a list \<Rightarrow> nat option" where
  "findIndex P [] = None"
| "findIndex P (x # xs) = (if P x then Some 0 else map_option Suc (findIndex P xs))"

text \<open>\<^verbatim>\<open>xs.splice(k, 1)\<close>\<close>

definition splice1 :: "nat \<Rightarrow> 'a list \<Rightarrow> 'a list" where
  "splice1 k xs = take k xs @ drop (Suc k) xs"

definition deleteFeed :: "int \<Rightarrow> 'w sys \<Rightarrow> (error + bool) \<times> 'w sys" where
  "deleteFeed i s =
     (case load s of
        Inl e \<Rightarrow> (Inl e, s)
      | Inr data \<Rightarrow>
     (case data_feeds ''findIndex'' data of
        Inl e \<Rightarrow> (Inl e, s)
      | Inr d \<Rightarrow>
          (case findIndex (\<lambda>f. feed_id f = i) (feeds d) of
             None \<Rightarrow> (Inl (Error ''Feed not found''), s)
           | Some feedIndex \<Rightarrow>
               (case save (d\<lparr>feeds := splice1 feedIndex (feeds d)\<rparr>) s of
                  (Inl e, s1) \<Rightarrow> (Inl e, s1)
                | (Inr u, s1) \<Rightarrow> (Inr True, s1)))))"

subsection \<open>pollFeed\<close>

text \<open>
  \<^verbatim>\<open>getItemHash(item)\<close>: \<^verbatim>\<open>item.guid || item.link || item.title\<close>, hashed. When all
  three are missing, \<^verbatim>\<open>update(undefined)\<close> throws a \<^verbatim>\<open>TypeError\<close>.
\<close>

definition getItemHash :: "jslib \<Rightarrow> item \<Rightarrow> error + string" where
  "getItemHash lib it =
     (case js_or (js_or (guid it) (link it)) (title it) of
        None \<Rightarrow> Inl (Error ''The data argument must be of type string'')
      | Some hashContent \<Rightarrow> Inr (md5_hex lib hashContent))"

datatype poll_result =
    AddSucceeded "string option" int
  | AddFailed "string option" string

text \<open>The variables of the loop: \<^verbatim>\<open>data\<close> (which holds \<^verbatim>\<open>feed\<close>), \<^verbatim>\<open>results\<close> and
  the five counters of the summary line.\<close>

record poll_acc =
  acc_data :: store
  acc_results :: "poll_result list"
  skippedAlreadySeen :: nat
  skippedNoMatch :: nat
  skippedAlreadyExists :: nat
  addedNew :: nat
  failedToAdd :: nat

text \<open>\<^verbatim>\<open>feed\<close> is the first element of \<^verbatim>\<open>data.feeds\<close> with the identifier, so
  \<^verbatim>\<open>feed.matched_count++\<close> and \<^verbatim>\<open>feed.last_poll = ...\<close> change that element.\<close>

fun update_first :: "('a \<Rightarrow> bool) \<Rightarrow> ('a \<Rightarrow> 'a) \<Rightarrow> 'a list \<Rightarrow> 'a list" where
  "update_first P g [] = []"
| "update_first P g (x # xs) = (if P x then g x # xs else x # update_first P g xs)"

definition update_feed :: "int \<Rightarrow> (feed \<Rightarrow> feed) \<Rightarrow> store \<Rightarrow> store" where
  "update_feed i g d = d\<lparr>feeds := update_first (\<lambda>f. feed_id f = i) g (feeds d)\<rparr>"

text \<open>
  The body of the \<^verbatim>\<open>for\<close> loop for one item, after its hash is computed; each
  \<^verbatim>\<open>continue\<close> is a return of the body. \<open>feed\<close> is passed for its identifier,
  \<^verbatim>\<open>url\<close> and \<^verbatim>\<open>rules\<close>, which the loop does not change. A result that does not match,
  for whatever reason, counts as no match.
\<close>

definition poll_item ::
  "jslib \<Rightarrow> 'w env \<Rightarrow> feed \<Rightarrow> torrent list \<Rightarrow> item \<Rightarrow> string \<Rightarrow> poll_acc \<Rightarrow> 'w sys
    \<Rightarrow> poll_acc \<times> 'w sys" where
  "poll_item lib env feed existingTorrents it hash acc s =
     (if seenItems (acc_data acc) hash \<noteq> None
      then (acc\<lparr>skippedAlreadySeen := Suc (skippedAlreadySeen acc)\<rparr>, s)
      else
        (let c = read_clock env s;
             s1 = (snd c)\<lparr>log := log (snd c) @ [MarkSeen hash]\<rparr>;
             acc1 = acc\<lparr>acc_data := (acc_data acc)\<lparr>seenItems := (seenItems (acc_data acc))
                      (hash \<mapsto> \<lparr>seen_feed_id = feed_id feed, seen_at = fst c\<rparr>)\<rparr>\<rparr>
         in case matchesRules lib it (feed_rules feed) of
              Matched torrentUrl \<Rightarrow>
                if list_ex (\<lambda>t. Some (torrent_name t) = title it) existingTorrents
                then (acc1\<lparr>skippedAlreadyExists := Suc (skippedAlreadyExists acc1)\<rparr>, s1)
                else
                  (case addTorrentUrl env torrentUrl s1 of
                     (Inr torrent, s2) \<Rightarrow>
                       (acc1\<lparr>acc_data := update_feed (feed_id feed)
                                (\<lambda>f. f\<lparr>matched_count := Suc (matched_count f)\<rparr>) (acc_data acc1),
                              acc_results := acc_results acc1
                                @ [AddSucceeded (title it) (torrent_id torrent)],
                              addedNew := Suc (addedNew acc1)\<rparr>,
                        setTorrentMetadata env (hashString torrent) 0 ''rss-auto'' s2)
                   | (Inl e, s2) \<Rightarrow>
                       (acc1\<lparr>acc_results := acc_results acc1 @ [AddFailed (title it) (message e)],
                              failedToAdd := Suc (failedToAdd acc1)\<rparr>, s2))
            | NoMatch reason \<Rightarrow> (acc1\<lparr>skippedNoMatch := Suc (skippedNoMatch acc1)\<rparr>, s1)
            | MatchError m \<Rightarrow> (acc1\<lparr>skippedNoMatch := Suc (skippedNoMatch acc1)\<rparr>, s1)))"

text \<open>The \<^verbatim>\<open>for\<close> loop over the items in document order. A throw of
  \<^verbatim>\<open>getItemHash\<close> leaves the loop and the function.\<close>

fun poll_items ::
  "jslib \<Rightarrow> 'w env \<Rightarrow> feed \<Rightarrow> torrent list \<Rightarrow> item list \<Rightarrow> poll_acc \<Rightarrow> 'w sys
    \<Rightarrow> (error + poll_acc) \<times> 'w sys" where
  "poll_items lib env feed existingTorrents [] acc s = (Inr acc, s)"
| "poll_items lib env feed existingTorrents (it # its) acc s =
     (case getItemHash lib it of
        Inl e \<Rightarrow> (Inl e, s)
      | Inr hash \<Rightarrow>
          poll_items lib env feed existingTorrents its
            (fst (poll_item lib env feed existingTorrents it hash acc s))
            (snd (poll_item lib env feed existingTorrents it hash acc s)))"

text \<open>
  \<^verbatim>\<open>pollFeed(feedId)\<close>. The source returns \<^verbatim>\<open>results\<close>; the model returns the loop's
  variables, which hold \<^verbatim>\<open>results\<close>, the counters the summary line prints, and the
  store as it was written.
\<close>

definition pollFeed :: "jslib \<Rightarrow> 'w env \<Rightarrow> int \<Rightarrow> 'w sys \<Rightarrow> (error + poll_acc) \<times> 'w sys" where
  "pollFeed lib env feedId s =
     (case load s of
        Inl e \<Rightarrow> (Inl e, s)
      | Inr data \<Rightarrow>
     (case data_feeds ''find'' data of
        Inl e \<Rightarrow> (Inl e, s)
      | Inr d \<Rightarrow>
     (case find (\<lambda>f. feed_id f = feedId) (feeds d) of
        None \<Rightarrow> (Inl (Error ''Feed not found''), s)
      | Some feed \<Rightarrow>
          (case parseFeed lib env (feed_url feed) s of
             (Inl e, s1) \<Rightarrow> (Inl e, s1)
           | (Inr items, s1) \<Rightarrow>
               (case getTorrents env s1 of
                  (Inl e, s2) \<Rightarrow> (Inl e, s2)
                | (Inr existingTorrents, s2) \<Rightarrow>
                    (case poll_items lib env feed existingTorrents items
                            \<lparr>acc_data = d, acc_results = [], skippedAlreadySeen = 0,
                             skippedNoMatch = 0, skippedAlreadyExists = 0, addedNew = 0,
                             failedToAdd = 0\<rparr> s2 of
                       (Inl e, s3) \<Rightarrow> (Inl e, s3)
                     | (Inr acc, s3) \<Rightarrow>
                         (case save (update_feed feedId (\<lambda>f. f\<lparr>last_poll := Some (fst (read_clock env s3))\<rparr>)
                                       (acc_data acc)) (snd (read_clock env s3)) of
                            (Inl e, s4) \<Rightarrow> (Inl e, s4)
                          | (Inr u, s4) \<Rightarrow>
                              (Inr (acc\<lparr>acc_data := update_feed feedId
                                       (\<lambda>f. f\<lparr>last_poll := Some (fst (read_clock env s3))\<rparr>)
                                       (acc_data acc)\<rparr>), s4))))))))"

section \<open>The process over time\<close>

text \<open>
  What can happen to the restart state, one event at a time: a caller removes a torrent,
  a caller schedules the restart directly, the runtime fires the pending timeout, the
  timeout's callback finishes. \<open>run\<close> applies a sequence of events from left to right.
  A run of events without \<open>TimerFires\<close> and \<open>RestartFinishes\<close> is a run inside the
  debounce window.
\<close>

datatype event =
    RemoveRequest int bool
  | ScheduleRestart
  | TimerFires
  | RestartFinishes

fun step :: "'w env \<Rightarrow> event \<Rightarrow> 'w sys \<Rightarrow> 'w sys" where
  "step env (RemoveRequest i deleteFiles) s = snd (removeTorrent env i deleteFiles s)"
| "step env ScheduleRestart s = snd (scheduleTransmissionRestart s)"
| "step env TimerFires s = timer_fires env s"
| "step env RestartFinishes s = restart_finishes s"

fun run :: "'w env \<Rightarrow> event list \<Rightarrow> 'w sys \<Rightarrow> 'w sys" where
  "run env [] s = s"
| "run env (ev # evs) s = run env evs (step env ev s)"

fun in_window :: "event \<Rightarrow> bool" where
  "in_window (RemoveRequest i deleteFiles) = True"
| "in_window ScheduleRestart = True"
| "in_window TimerFires = False"
| "in_window RestartFinishes = False"

text \<open>The number of restart commands the process has issued.\<close>

definition restarts_issued :: "'w sys \<Rightarrow> nat" where
  "restarts_issued s = count_list (log s) ExecRestart"

section \<open>Properties of the effect log\<close>




text \<open>The effects of fetching the feed and listing the daemon's torrents.\<close>

definition is_fetch_effect :: "effect \<Rightarrow> bool" where
  "is_fetch_effect e =
     (case e of DnsLookup h \<Rightarrow> True | HttpFetch u \<Rightarrow> True | RpcGetAll \<Rightarrow> True | _ \<Rightarrow> False)"

text \<open>What identifies a feed to a poll: identifier, URL and rules.\<close>

definition feed_key :: "feed \<Rightarrow> int \<times> string \<times> rules" where
  "feed_key f = (feed_id f, feed_url f, feed_rules f)"

section \<open>The matcher as the specification words it\<close>

text \<open>
  The specification's \<^verbatim>\<open>matchesRule\<close>, written from its three numbered checks and
  with predicates of its own, to be compared with \<open>matchesRules\<close>. The torrent MIME
  type, the torrent file extension and the fixed set of download-path markers are the
  constants of the specification; it names three of the markers, the set is the tracker
  endpoints of the source.
\<close>

definition spec_torrent_mime :: string where
  "spec_torrent_mime = ''application/x-bittorrent''"

definition spec_torrent_extension :: string where
  "spec_torrent_extension = ''.torrent''"

definition spec_download_markers :: "string list" where
  "spec_download_markers =
     [''/download/'', ''action=download'', ''rss_dl.php'', ''/dl/'', ''download.php'']"

text \<open>
  Check 2 (a): an enclosed file reference whose declared media type is the torrent MIME
  type or whose URL ends in the torrent file extension. A download URL is derivable from
  such a reference when the reference has a URL; the first such reference of the item
  gives it.
\<close>

definition spec_torrent_reference :: "enclosure \<Rightarrow> bool" where
  "spec_torrent_reference e =
     (enc_type e = Some spec_torrent_mime \<or>
      (case enc_url e of None \<Rightarrow> False | Some u \<Rightarrow> suffix spec_torrent_extension u))"

definition spec_has_url :: "enclosure \<Rightarrow> bool" where
  "spec_has_url e = (case enc_url e of None \<Rightarrow> False | Some u \<Rightarrow> u \<noteq> [])"

definition spec_url_reference :: "item \<Rightarrow> enclosure option" where
  "spec_url_reference it =
     (case enclosures it of
        None \<Rightarrow> None
      | Some es \<Rightarrow> find (\<lambda>e. spec_torrent_reference e \<and> spec_has_url e) es)"

text \<open>Check 2 (b) and (c): the item's own link, if it ends in the torrent file extension,
  else if it contains one of the markers.\<close>

definition spec_link_url :: "item \<Rightarrow> string option" where
  "spec_link_url it =
     (case link it of
        None \<Rightarrow> None
      | Some l \<Rightarrow>
          if l \<noteq> [] \<and> suffix spec_torrent_extension l then Some l
          else if l \<noteq> [] \<and> list_ex (\<lambda>m. sublist m l) spec_download_markers then Some l
          else None)"

definition spec_download_url :: "item \<Rightarrow> string option" where
  "spec_download_url it =
     (case spec_url_reference it of
        Some e \<Rightarrow> enc_url e
      | None \<Rightarrow> spec_link_url it)"

text \<open>Check 3: the declared size is known when the enclosed file reference that gives the
  download URL states a length that reads as a number.\<close>

definition spec_declared_size :: "jslib \<Rightarrow> item \<Rightarrow> int option" where
  "spec_declared_size lib it =
     (case spec_url_reference it of
        None \<Rightarrow> None
      | Some e \<Rightarrow>
          (case enc_length e of
             None \<Rightarrow> None
           | Some n \<Rightarrow> if n = [] then None else parseInt lib n))"

text \<open>The three checks in their order; \<open>test\<close> is the rule's pattern, compiled without
  regard to case. The reasons are the strings of the source: \<^verbatim>\<open>regex\<close> for the
  specification's ``pattern'', \<^verbatim>\<open>no-torrent-link\<close> for its ``no-link''.\<close>

definition spec_matchesRule :: "(string \<Rightarrow> bool) \<Rightarrow> jslib \<Rightarrow> item \<Rightarrow> rules \<Rightarrow> match_result" where
  "spec_matchesRule test lib it r =
     (if \<not> test (js_string (title it)) then NoMatch ''regex''
      else
        (case spec_download_url it of
           None \<Rightarrow> NoMatch ''no-torrent-link''
         | Some u \<Rightarrow>
             (case spec_declared_size lib it of
                None \<Rightarrow> Matched u
              | Some n \<Rightarrow>
                  if minSize r \<le> n \<and> n \<le> maxSize r then Matched u else NoMatch ''size'')))"

section \<open>Views of the state used in the proofs\<close>

text \<open>What the debounced restart reads and writes, with the number of restart commands
  issued so far.\<close>

definition restart_view :: "'w sys \<Rightarrow> nat option \<times> nat option \<times> nat list \<times> nat \<times> nat \<times> nat" where
  "restart_view s =
     (restartTimeout s, restartPromise s, timers s, restarting s, next_handle s, restarts_issued s)"

text \<open>\<open>restart_ok\<close>: at most one restart is on its way, as a pending timeout or as a
  running callback, and the two module variables are set exactly while it is.
  \<open>quiet\<close>: no timeout has fired yet; either nothing is scheduled or one timeout is
  pending.\<close>

definition restart_ok :: "nat option \<times> nat option \<times> nat list \<times> nat \<times> nat \<times> nat \<Rightarrow> bool" where
  "restart_ok v =
     (case v of (t, p, ts, r, n, c) \<Rightarrow>
        length ts + r \<le> 1 \<and> ((t = None) = (ts = [] \<and> r = 0)) \<and> ((p = None) = (t = None)))"

definition quiet :: "nat option \<times> nat option \<times> nat list \<times> nat \<times> nat \<times> nat \<Rightarrow> bool" where
  "quiet v =
     (case v of (t, p, ts, r, n, c) \<Rightarrow>
        r = 0 \<and> c = 0 \<and> ((t = None \<and> p = None \<and> ts = []) \<or> (t \<noteq> None \<and> p \<noteq> None \<and> length ts = 1)))"

section \<open>Test fixtures\<close>

text \<open>The state of the process at start: no handle, no restart scheduled, an empty
  ledger, and the store's file as it is found.\<close>

definition startup :: "'w \<Rightarrow> error + json_text \<Rightarrow> 'w sys" where
  "startup w file =
     \<lparr>world = w, client = False, restartTimeout = None, restartPromise = None, timers = [],
      restarting = 0, next_handle = 0, metadata = Map.empty, feeds_file = file,
      write_error = None, log = []\<rparr>"

text \<open>
  A stand-in runtime: a pattern is a literal text found anywhere in the title without
  regard to case (the text \<^verbatim>\<open>(\<close> does not compile), \<^verbatim>\<open>parseInt\<close> knows the sizes
  the fixtures use, the digest is the text itself, and \<^verbatim>\<open>new URL\<close> knows the
  fixtures' addresses.
\<close>

definition demo_lib :: jslib where
  "demo_lib =
     \<lparr>RegExp = (\<lambda>p flags.
         if p = ''('' then Inl (Error ''Invalid regular expression'')
         else Inr (\<lambda>t. includes_str (map lower_char t) (map lower_char p))),
      parseInt = (\<lambda>s. if s = ''500000000'' then Some 500000000
                       else if s = ''50'' then Some 50 else None),
      md5_hex = (\<lambda>s. s),
      URL_parse = (\<lambda>u.
         if u = ''http://feeds.example/rss''
         then Inr \<lparr>protocol = ''http:'', hostname = ''feeds.example''\<rparr>
         else if u = ''http://nas.example/rss''
         then Inr \<lparr>protocol = ''http:'', hostname = ''nas.example''\<rparr>
         else Inl (Error ''Invalid URL''))\<rparr>"

definition demo_rules :: rules where
  "demo_rules = \<lparr>regex = ''s01e01'', minSize = 100000000, maxSize = 2000000000, category = []\<rparr>"

definition demo_item :: item where
  "demo_item =
     \<lparr>title = Some ''Show.S01E01.mkv'', link = Some ''http://t.example/view/1'',
      guid = Some ''guid-1'',
      enclosures = Some [\<lparr>enc_type = Some ''application/x-bittorrent'',
                           enc_url = Some ''http://t.example/1.torrent'',
                           enc_length = Some ''500000000''\<rparr>]\<rparr>"

text \<open>An item with two enclosed file references: the first declares the torrent media
  type and has no URL, the second has a URL that ends in the torrent extension. The link
  is a page, not a download.\<close>

definition two_reference_item :: item where
  "two_reference_item =
     \<lparr>title = Some ''Show.S01E01.mkv'', link = Some ''http://t.example/view/1'',
      guid = Some ''guid-1'',
      enclosures = Some [\<lparr>enc_type = Some ''application/x-bittorrent'', enc_url = None,
                           enc_length = None\<rparr>,
                         \<lparr>enc_type = None, enc_url = Some ''http://t.example/1.torrent'',
                           enc_length = Some ''500000000''\<rparr>]\<rparr>"

definition demo_feed :: "int \<Rightarrow> feed" where
  "demo_feed i =
     \<lparr>feed_id = i, feed_url = ''http://feeds.example/rss'', feed_rules = demo_rules,
      feed_added_at = 0, last_poll = None, matched_count = 0\<rparr>"

definition demo_store :: store where
  "demo_store =
     \<lparr>feeds = [demo_feed 1, demo_feed 2],
      seenItems = [''guid-0'' \<mapsto> \<lparr>seen_feed_id = 1, seen_at = 5\<rparr>],
      nextId = 3\<rparr>"

text \<open>
  Three stand-in worlds over the one-point state. \<open>dead_env\<close>: the daemon is not
  reachable and every other call fails too. \<open>stuck_env\<close>: the daemon answers, its
  remove call reports success and releases nothing, so the torrent is still found
  afterwards. \<open>lan_env\<close>: the resolver gives a unique-local IPv6 address for every name
  and the server answers with an empty feed.
\<close>

definition refused :: error where
  "refused = Error ''connect ECONNREFUSED 127.0.0.1:9091''"

definition dead_env :: "unit env" where
  "dead_env =
     \<lparr>rpc_get_all = (\<lambda>w. (Inl refused, w)),
      rpc_get = (\<lambda>i w. (Inl refused, w)),
      rpc_remove = (\<lambda>i d w. (Inl refused, w)),
      rpc_stop = (\<lambda>i w. (Inl refused, w)),
      rpc_session = (\<lambda>w. (Inl refused, w)),
      rpc_addUrl = (\<lambda>u w. (Inl refused, w)),
      fs_unlink = (\<lambda>p w. (Inl (Error ''ENOENT''), w)),
      fs_rm = (\<lambda>p w. (Inl (Error ''ENOENT''), w)),
      fs_statfs = (\<lambda>p w. (Inl (Error ''ENOSYS''), w)),
      exec_restart = (\<lambda>w. (Inl (Error ''exit 1''), w)),
      dns_lookup = (\<lambda>h w. (Inl (Error ''getaddrinfo ENOTFOUND''), w)),
      http_fetch = (\<lambda>u w. (Inl (Error ''network''), w)),
      clock_now = (\<lambda>w. (0, w)),
      sleep_ms = (\<lambda>n w. ((), w)),
      TRANSMISSION_CONFIG_DIR = ''/var/lib/transmission-daemon''\<rparr>"

definition stuck_torrent :: "int \<Rightarrow> torrent" where
  "stuck_torrent i =
     \<lparr>torrent_id = i, hashString = ''abc'', torrent_name = ''file'', downloadDir = ''/downloads'',
      percentDone = 1, totalSize = 50\<rparr>"

definition stuck_env :: "unit env" where
  "stuck_env =
     \<lparr>rpc_get_all = (\<lambda>w. (Inr [stuck_torrent 1], w)),
      rpc_get = (\<lambda>i w. (Inr [stuck_torrent i], w)),
      rpc_remove = (\<lambda>i d w. (Inr (), w)),
      rpc_stop = (\<lambda>i w. (Inr (), w)),
      rpc_session = (\<lambda>w. (Inr \<lparr>download_dir = ''/downloads'', incomplete_dir = [],
                                    incomplete_dir_enabled = False\<rparr>, w)),
      rpc_addUrl = (\<lambda>u w. (Inl refused, w)),
      fs_unlink = (\<lambda>p w. (Inr (), w)),
      fs_rm = (\<lambda>p w. (Inr (), w)),
      fs_statfs = (\<lambda>p w. (Inl (Error ''ENOSYS''), w)),
      exec_restart = (\<lambda>w. (Inr (), w)),
      dns_lookup = (\<lambda>h w. (Inl (Error ''getaddrinfo ENOTFOUND''), w)),
      http_fetch = (\<lambda>u w. (Inl (Error ''network''), w)),
      clock_now = (\<lambda>w. (0, w)),
      sleep_ms = (\<lambda>n w. ((), w)),
      TRANSMISSION_CONFIG_DIR = ''/cfg''\<rparr>"

definition lan_env :: "unit env" where
  "lan_env =
     \<lparr>rpc_get_all = (\<lambda>w. (Inr [], w)),
      rpc_get = (\<lambda>i w. (Inr [], w)),
      rpc_remove = (\<lambda>i d w. (Inr (), w)),
      rpc_stop = (\<lambda>i w. (Inr (), w)),
      rpc_session = (\<lambda>w. (Inl refused, w)),
      rpc_addUrl = (\<lambda>u w. (Inl refused, w)),
      fs_unlink = (\<lambda>p w. (Inr (), w)),
      fs_rm = (\<lambda>p w. (Inr (), w)),
      fs_statfs = (\<lambda>p w. (Inl (Error ''ENOSYS''), w)),
      exec_restart = (\<lambda>w. (Inr (), w)),
      dns_lookup = (\<lambda>h w. (Inr ''fd12:3456:789a::1'', w)),
      http_fetch = (\<lambda>u w. (Inr \<lparr>resp_ok = True, resp_status = ''200'', resp_body = Inr []\<rparr>, w)),
      clock_now = (\<lambda>w. (0, w)),
      sleep_ms = (\<lambda>n w. ((), w)),
      TRANSMISSION_CONFIG_DIR = ''/cfg''\<rparr>"

text \<open>Three removal requests in a row, and a \<^verbatim>\<open>parseFloat\<close> that knows the default
  threshold.\<close>

definition three_removals :: "event list" where
  "three_removals = [RemoveRequest 1 True, RemoveRequest 2 True, RemoveRequest 3 True]"

definition parseFloat_demo :: "string \<Rightarrow> rat option" where
  "parseFloat_demo s = (if s = ''10'' then Some 10 else None)"










text \<open>
  A world for polling: every name resolves to a public address, the feed document holds
  \<open>demo_item\<close>, the daemon lists no torrents and accepts every download request.
  \<open>feed_start\<close>: the process at start with \<open>demo_store\<close> on file.
\<close>

definition feed_env :: "unit env" where
  "feed_env =
     \<lparr>rpc_get_all = (\<lambda>w. (Inr [], w)),
      rpc_get = (\<lambda>i w. (Inr [], w)),
      rpc_remove = (\<lambda>i d w. (Inr (), w)),
      rpc_stop = (\<lambda>i w. (Inr (), w)),
      rpc_session = (\<lambda>w. (Inl refused, w)),
      rpc_addUrl = (\<lambda>u w. (Inr \<lparr>torrent_id = 9, hashString = ''h9'', torrent_name = ''Show'',
                                   downloadDir = ''/downloads'', percentDone = 0, totalSize = 500000000\<rparr>, w)),
      fs_unlink = (\<lambda>p w. (Inr (), w)),
      fs_rm = (\<lambda>p w. (Inr (), w)),
      fs_statfs = (\<lambda>p w. (Inl (Error ''ENOSYS''), w)),
      exec_restart = (\<lambda>w. (Inr (), w)),
      dns_lookup = (\<lambda>h w. (Inr ''93.184.216.34'', w)),
      http_fetch = (\<lambda>u w. (Inr \<lparr>resp_ok = True, resp_status = ''200'',
                                   resp_body = Inr [demo_item]\<rparr>, w)),
      clock_now = (\<lambda>w. (7, w)),
      sleep_ms = (\<lambda>n w. ((), w)),
      TRANSMISSION_CONFIG_DIR = ''/cfg''\<rparr>"

definition feed_start :: "unit sys" where
  "feed_start = startup () (Inr (Json demo_store))"

text \<open>
  A host whose download directory is on a file system that reports no blocks, as pseudo
  file systems and some user-space mounts do. The world is whether torrent 1 is still in
  the daemon; the remove call works.
\<close>

definition zero_block_env :: "bool env" where
  "zero_block_env =
     \<lparr>rpc_get_all = (\<lambda>w. (Inr (if w then [stuck_torrent 1] else []), w)),
      rpc_get = (\<lambda>i w. (Inr (if w \<and> i = 1 then [stuck_torrent 1] else []), w)),
      rpc_remove = (\<lambda>i d w. (Inr (), w \<and> i \<noteq> 1)),
      rpc_stop = (\<lambda>i w. (Inr (), w)),
      rpc_session = (\<lambda>w. (Inr \<lparr>download_dir = ''/downloads'', incomplete_dir = [],
                                    incomplete_dir_enabled = False\<rparr>, w)),
      rpc_addUrl = (\<lambda>u w. (Inl refused, w)),
      fs_unlink = (\<lambda>p w. (Inr (), w)),
      fs_rm = (\<lambda>p w. (Inr (), w)),
      fs_statfs = (\<lambda>p w. (Inr \<lparr>blocks = 0, bsize = 4096, bavail = 0\<rparr>, w)),
      exec_restart = (\<lambda>w. (Inr (), w)),
      dns_lookup = (\<lambda>h w. (Inl (Error ''getaddrinfo ENOTFOUND''), w)),
      http_fetch = (\<lambda>u w. (Inl (Error ''network''), w)),
      clock_now = (\<lambda>w. (100, w)),
      sleep_ms = (\<lambda>n w. ((), w)),
      TRANSMISSION_CONFIG_DIR = ''/cfg''\<rparr>"

definition zero_block_start :: "bool sys" where
  "zero_block_start = startup True (Inr (Json empty_store))"

section \<open>Basic facts\<close>

lemma truthy_js_or: "truthy (js_or a b) = (truthy a \<or> truthy b)"
  by (simp add: js_or_def)

lemma findIndex_less: "findIndex P xs = Some k \<Longrightarrow> k < length xs"
  by (induction xs arbitrary: k) (auto split: if_splits)

lemma findIndex_holds: "findIndex P xs = Some k \<Longrightarrow> P (xs ! k)"
  by (induction xs arbitrary: k) (auto split: if_splits)

lemma findIndex_first: "findIndex P xs = Some k \<Longrightarrow> j < k \<Longrightarrow> \<not> P (xs ! j)"
proof (induction xs arbitrary: k j)
  case Nil
  then show ?case by simp
next
  case (Cons x xs)
  show ?case
  proof (cases j)
    case 0
    with Cons.prems show ?thesis by (auto split: if_splits)
  next
    case (Suc j')
    with Cons.prems Cons.IH[of _ j'] show ?thesis by (auto split: if_splits)
  qed
qed

lemma findIndex_None: "findIndex P xs = None \<Longrightarrow> x \<in> set xs \<Longrightarrow> \<not> P x"
  by (induction xs) (auto split: if_splits)

lemma findIndex_ex: "x \<in> set xs \<Longrightarrow> P x \<Longrightarrow> \<exists>k. findIndex P xs = Some k"
  using findIndex_None[of P xs x] by (cases "findIndex P xs") auto

lemma endsWith_eval: "endsWith s suf = prefix (rev suf) (rev s)"
  by (simp add: endsWith_def suffix_to_prefix)

lemma includes_str_Nil: "includes_str [] sub = (sub = [])"
  by (simp add: includes_str_def)

lemma includes_str_Cons: "includes_str (c # s) sub = (prefix sub (c # s) \<or> includes_str s sub)"
  by (simp add: includes_str_def sublist_Cons_right)

lemmas string_eval =
  endsWith_eval includes_str_Nil includes_str_Cons startsWith_def startsWith_ci_def lower_char_def

lemma call_simps [simp]:
  "fst (call f ev s) = fst (f (world s))"
  "world (snd (call f ev s)) = snd (f (world s))"
  "log (snd (call f ev s)) = log s @ [ev]"
  "client (snd (call f ev s)) = client s"
  "restartTimeout (snd (call f ev s)) = restartTimeout s"
  "restartPromise (snd (call f ev s)) = restartPromise s"
  "timers (snd (call f ev s)) = timers s"
  "restarting (snd (call f ev s)) = restarting s"
  "next_handle (snd (call f ev s)) = next_handle s"
  "metadata (snd (call f ev s)) = metadata s"
  "feeds_file (snd (call f ev s)) = feeds_file s"
  "write_error (snd (call f ev s)) = write_error s"
  by (simp_all add: call_def)

lemma rpc_simps [simp]:
  "fst (rpc f ev s) = fst (f (world s))"
  "world (snd (rpc f ev s)) = snd (f (world s))"
  "log (snd (rpc f ev s)) = log s @ [ev]"
  "client (snd (rpc f ev s)) = True"
  "restartTimeout (snd (rpc f ev s)) = restartTimeout s"
  "restartPromise (snd (rpc f ev s)) = restartPromise s"
  "timers (snd (rpc f ev s)) = timers s"
  "restarting (snd (rpc f ev s)) = restarting s"
  "next_handle (snd (rpc f ev s)) = next_handle s"
  "metadata (snd (rpc f ev s)) = metadata s"
  "feeds_file (snd (rpc f ev s)) = feeds_file s"
  "write_error (snd (rpc f ev s)) = write_error s"
  by (simp_all add: rpc_def)

lemma read_clock_simps [simp]:
  "fst (read_clock env s) = fst (clock_now env (world s))"
  "world (snd (read_clock env s)) = snd (clock_now env (world s))"
  "log (snd (read_clock env s)) = log s"
  "client (snd (read_clock env s)) = client s"
  "restartTimeout (snd (read_clock env s)) = restartTimeout s"
  "restartPromise (snd (read_clock env s)) = restartPromise s"
  "timers (snd (read_clock env s)) = timers s"
  "restarting (snd (read_clock env s)) = restarting s"
  "next_handle (snd (read_clock env s)) = next_handle s"
  "metadata (snd (read_clock env s)) = metadata s"
  "feeds_file (snd (read_clock env s)) = feeds_file s"
  "write_error (snd (read_clock env s)) = write_error s"
  by (simp_all add: read_clock_def)

lemma view_call [simp]: "ev \<noteq> ExecRestart \<Longrightarrow> restart_view (snd (call f ev s)) = restart_view s"
  by (simp add: restart_view_def restarts_issued_def)

lemma view_rpc [simp]: "ev \<noteq> ExecRestart \<Longrightarrow> restart_view (snd (rpc f ev s)) = restart_view s"
  by (simp add: restart_view_def restarts_issued_def)

lemma view_sleep [simp]: "restart_view (sleep env n s) = restart_view s"
  by (simp add: sleep_def)

lemma view_client [simp]: "restart_view (s\<lparr>client := b\<rparr>) = restart_view s"
  by (simp add: restart_view_def restarts_issued_def)

lemma view_getTorrentDetails [simp]:
  "restart_view (snd (getTorrentDetails env i s)) = restart_view s"
  by (simp add: getTorrentDetails_def case_prod_beta split: sum.splits list.splits)

lemma view_normal_removal [simp]:
  "restart_view (snd (normal_removal env i d s)) = restart_view s"
  by (simp add: normal_removal_def case_prod_beta split: sum.splits)

lemma view_getServerStats [simp]: "restart_view (snd (getServerStats env s)) = restart_view s"
  by (simp add: getServerStats_def)

lemma view_stopTorrent [simp]: "restart_view (snd (stopTorrent env i s)) = restart_view s"
  by (simp add: stopTorrent_def)

lemma view_delete_downloaded [simp]:
  "restart_view (delete_downloaded env dir nm pd s) = restart_view s"
  by (simp add: delete_downloaded_def case_prod_beta split: sum.splits)

lemma schedule_depends_on_view:
  "restart_view s = restart_view s' \<Longrightarrow>
     fst (scheduleTransmissionRestart s) = fst (scheduleTransmissionRestart s') \<and>
     restart_view (snd (scheduleTransmissionRestart s))
       = restart_view (snd (scheduleTransmissionRestart s'))"
  by (cases "restartTimeout s'")
     (simp_all add: scheduleTransmissionRestart_def restart_view_def restarts_issued_def Let_def)

lemma view_workaround:
  "restart_view (workaround env i d h dir nm pd s)
     = restart_view (snd (scheduleTransmissionRestart s))"
proof -
  let ?r = "join (join (TRANSMISSION_CONFIG_DIR env) ''resume'') (h @ ''.resume'')"
  let ?t = "join (join (TRANSMISSION_CONFIG_DIR env) ''torrents'') (h @ ''.torrent'')"
  let ?s3 = "snd (call (fs_unlink env ?t) (Unlink ?t)
               (snd (call (fs_unlink env ?r) (Unlink ?r) (snd (stopTorrent env i s)))))"
  let ?s4 = "if d \<and> truthy dir \<and> truthy nm
             then delete_downloaded env (js_string dir) (js_string nm) pd ?s3 else ?s3"
  have "restart_view ?s4 = restart_view s" by simp
  from schedule_depends_on_view[OF this]
  have "restart_view (snd (scheduleTransmissionRestart ?s4))
          = restart_view (snd (scheduleTransmissionRestart s))" by simp
  moreover have "workaround env i d h dir nm pd s
          = (snd (scheduleTransmissionRestart ?s4))\<lparr>client := False\<rparr>"
    by (simp add: workaround_def Let_def)
  ultimately show ?thesis by simp
qed

lemma view_removeTorrent:
  "restart_view (snd (removeTorrent env i d s)) = restart_view s \<or>
   restart_view (snd (removeTorrent env i d s)) = restart_view (snd (scheduleTransmissionRestart s))"
proof -
  let ?d = "getTorrentDetails env i s"
  let ?n = "normal_removal env i d (snd ?d)"
  have n: "restart_view (snd ?n) = restart_view s" by simp
  have w: "restart_view (workaround env i d h dir nm pd (snd ?n))
       = restart_view (snd (scheduleTransmissionRestart s))" for h dir nm pd
    using view_workaround[of env i d h dir nm pd "snd ?n"] schedule_depends_on_view[OF n] by simp
  show ?thesis
    using n w by (simp add: removeTorrent_def Let_def)
qed


lemma view_startup: "restart_view (startup w f) = (None, None, [], 0, 0, 0)"
  by (simp add: restart_view_def startup_def restarts_issued_def)

lemma ok_schedule:
  "restart_ok (restart_view s) \<Longrightarrow> restart_ok (restart_view (snd (scheduleTransmissionRestart s)))"
  by (cases "restartTimeout s")
     (auto simp: restart_ok_def restart_view_def scheduleTransmissionRestart_def Let_def
        restarts_issued_def)

lemma ok_timer_fires:
  "restart_ok (restart_view s) \<Longrightarrow> restart_ok (restart_view (timer_fires env s))"
  by (cases "timers s")
     (auto simp: restart_ok_def restart_view_def timer_fires_def restarts_issued_def)

lemma ok_restart_finishes:
  "restart_ok (restart_view s) \<Longrightarrow> restart_ok (restart_view (restart_finishes s))"
  by (cases "timers s")
     (auto simp: restart_ok_def restart_view_def restart_finishes_def restarts_issued_def)

lemma ok_step: "restart_ok (restart_view s) \<Longrightarrow> restart_ok (restart_view (step env ev s))"
proof (cases ev)
  case (RemoveRequest i d)
  assume ok: "restart_ok (restart_view s)"
  from view_removeTorrent[of env i d s] ok ok_schedule[OF ok] RemoveRequest
  show ?thesis by auto
qed (simp_all add: ok_schedule ok_timer_fires ok_restart_finishes)

lemma ok_run: "restart_ok (restart_view s) \<Longrightarrow> restart_ok (restart_view (run env evs s))"
  by (induction evs arbitrary: s) (simp_all add: ok_step)

lemma quiet_schedule:
  "quiet (restart_view s) \<Longrightarrow> quiet (restart_view (snd (scheduleTransmissionRestart s)))"
  by (cases "restartTimeout s")
     (auto simp: quiet_def restart_view_def scheduleTransmissionRestart_def Let_def
        restarts_issued_def)

lemma pending_schedule:
  "restartTimeout (snd (scheduleTransmissionRestart s)) \<noteq> None"
  by (cases "restartTimeout s") (simp_all add: scheduleTransmissionRestart_def Let_def)

lemma quiet_step:
  "quiet (restart_view s) \<Longrightarrow> in_window ev \<Longrightarrow> quiet (restart_view (step env ev s))"
proof (cases ev)
  case (RemoveRequest i d)
  assume q: "quiet (restart_view s)"
  from view_removeTorrent[of env i d s] q quiet_schedule[OF q] RemoveRequest
  show ?thesis by auto
qed (simp_all add: quiet_schedule)

lemma quiet_run:
  "quiet (restart_view s) \<Longrightarrow> list_all in_window evs \<Longrightarrow> quiet (restart_view (run env evs s))"
  by (induction evs arbitrary: s) (simp_all add: quiet_step)

lemma pending_step:
  "restartTimeout s \<noteq> None \<Longrightarrow> in_window ev \<Longrightarrow> restartTimeout (step env ev s) \<noteq> None"
proof (cases ev)
  case (RemoveRequest i d)
  assume p: "restartTimeout s \<noteq> None"
  have "fst (restart_view (snd (removeTorrent env i d s))) \<noteq> None"
    using view_removeTorrent[of env i d s] p pending_schedule[of s]
    by (auto simp: restart_view_def)
  with RemoveRequest show ?thesis by (simp add: restart_view_def)
qed (simp_all add: pending_schedule)

lemma pending_run:
  "restartTimeout s \<noteq> None \<Longrightarrow> list_all in_window evs \<Longrightarrow> restartTimeout (run env evs s) \<noteq> None"
proof (induction evs arbitrary: s)
  case Nil
  then show ?case by simp
next
  case (Cons a evs)
  from Cons.prems(2) have w: "in_window a" "list_all in_window evs" by simp_all
  from pending_step[OF Cons.prems(1) w(1)] have "restartTimeout (step env a s) \<noteq> None" .
  from Cons.IH[OF this w(2)] show ?case by simp
qed

lemma run_append: "run env (evs @ evs') s = run env evs' (run env evs s)"
  by (induction evs arbitrary: s) simp_all

lemma fire_and_finish:
  assumes "quiet (restart_view s)" "restartTimeout s \<noteq> None"
  shows "restarts_issued (run env [TimerFires, RestartFinishes] s) = 1 \<and>
         restartTimeout (run env [TimerFires, RestartFinishes] s) = None \<and>
         timers (run env [TimerFires, RestartFinishes] s) = []"
proof -
  from assms obtain t where t: "timers s = [t]" "restarting s = 0" "restarts_issued s = 0"
    by (cases "timers s") (auto simp: quiet_def restart_view_def)
  then show ?thesis
    by (simp add: timer_fires_def restart_finishes_def restarts_issued_def)
qed

lemma workaround_schedules:
  assumes "fst (getTorrentDetails env i s) = Inr t" "hashString t \<noteq> []"
    and "\<not> fst (normal_removal env i d (snd (getTorrentDetails env i s)))"
  shows "restartTimeout (snd (removeTorrent env i d s)) \<noteq> None"
proof -
  let ?n = "normal_removal env i d (snd (getTorrentDetails env i s))"
  have "snd (removeTorrent env i d s)
      = workaround env i d (hashString t) (Some (downloadDir t)) (Some (torrent_name t))
          (percentDone t) (snd ?n)"
    using assms by (simp add: removeTorrent_def Let_def)
  then have "restart_view (snd (removeTorrent env i d s))
      = restart_view (snd (scheduleTransmissionRestart (snd ?n)))"
    by (simp add: view_workaround)
  then show ?thesis
    using pending_schedule[of "snd ?n"] by (simp add: restart_view_def)
qed

lemma stuck_first:
  "restartTimeout (step stuck_env (RemoveRequest 1 True) (startup () f)) \<noteq> None"
proof -
  have g: "fst (getTorrentDetails stuck_env 1 (startup () f)) = Inr (stuck_torrent 1)"
    by (simp add: getTorrentDetails_def case_prod_beta stuck_env_def rpc_def call_def)
  have h: "hashString (stuck_torrent 1) \<noteq> []" by (simp add: stuck_torrent_def)
  have n: "\<not> fst (normal_removal stuck_env 1 True (snd (getTorrentDetails stuck_env 1 (startup () f))))"
    by (simp add: normal_removal_def getTorrentDetails_def case_prod_beta stuck_env_def
        rpc_def call_def sleep_def)
  from workaround_schedules[OF g h n] show ?thesis by simp
qed

lemma getDiskUsage_failure:
  "fst (fs_statfs env p (world s)) = Inl e \<Longrightarrow>
     freePercent (fst (getDiskUsage env p s)) = Some 10 \<and>
     snd (getDiskUsage env p s) = snd (call (fs_statfs env p) (Statfs p) s)"
  by (simp add: getDiskUsage_def case_prod_beta)












subsection \<open>Polling\<close>

lemma setTorrentMetadata_simps [simp]:
  "log (setTorrentMetadata env h uid un s) = log s"
  "feeds_file (setTorrentMetadata env h uid un s) = feeds_file s"
  "write_error (setTorrentMetadata env h uid un s) = write_error s"
  by (simp_all add: setTorrentMetadata_def Let_def)

lemma update_first_keys:
  "(\<And>f. feed_key (g f) = feed_key f) \<Longrightarrow> map feed_key (update_first P g xs) = map feed_key xs"
  by (induction xs) simp_all

lemma update_feed_simps [simp]:
  "seenItems (update_feed i g d) = seenItems d"
  "nextId (update_feed i g d) = nextId d"
  by (simp_all add: update_feed_def)

lemma update_feed_keys:
  "(\<And>f. feed_key (g f) = feed_key f) \<Longrightarrow>
     map feed_key (feeds (update_feed i g d)) = map feed_key (feeds d)"
  by (simp add: update_feed_def update_first_keys)

lemma update_first_counts:
  "(\<And>f. matched_count (g f) = matched_count f) \<Longrightarrow>
     map matched_count (update_first P g xs) = map matched_count xs"
  by (induction xs) simp_all

lemma find_same_keys:
  "map feed_key xs = map feed_key ys \<Longrightarrow> find (\<lambda>f. feed_id f = i) xs = Some f \<Longrightarrow>
     \<exists>f'. find (\<lambda>f. feed_id f = i) ys = Some f' \<and> feed_key f' = feed_key f"
proof (induction xs arbitrary: ys)
  case Nil
  then show ?case by simp
next
  case (Cons x xs)
  from Cons.prems(1) obtain y ys' where ys: "ys = y # ys'" "feed_key x = feed_key y"
    "map feed_key xs = map feed_key ys'"
    by (cases ys) auto
  from ys(2) have id: "feed_id x = feed_id y" by (simp add: feed_key_def)
  show ?case
  proof (cases "feed_id x = i")
    case True
    with Cons.prems(2) have "f = x" by simp
    with True id ys show ?thesis by simp
  next
    case False
    with Cons.prems(2) have "find (\<lambda>f. feed_id f = i) xs = Some f" by simp
    from Cons.IH[OF ys(3) this] False id ys(1) show ?thesis by simp
  qed
qed

lemma poll_item_seen:
  "seenItems (acc_data acc) h \<noteq> None \<Longrightarrow>
     poll_item lib env feed ex it h acc s
       = (acc\<lparr>skippedAlreadySeen := Suc (skippedAlreadySeen acc)\<rparr>, s)"
  by (simp add: poll_item_def)

lemma poll_item_marks:
  "seenItems (acc_data (fst (poll_item lib env feed ex it h acc s))) h \<noteq> None"
  by (simp add: poll_item_def Let_def case_prod_beta addTorrentUrl_def
      split: match_result.splits sum.splits)

lemma poll_item_keeps:
  "seenItems (acc_data acc) k \<noteq> None \<Longrightarrow>
     seenItems (acc_data (fst (poll_item lib env feed ex it h acc s))) k \<noteq> None"
  by (simp add: poll_item_def Let_def case_prod_beta addTorrentUrl_def
      split: match_result.splits sum.splits)

lemma poll_item_keys:
  "map feed_key (feeds (acc_data (fst (poll_item lib env feed ex it h acc s))))
     = map feed_key (feeds (acc_data acc))"
  by (simp add: poll_item_def Let_def case_prod_beta addTorrentUrl_def update_feed_keys feed_key_def
      split: match_result.splits sum.splits)

lemma poll_item_file:
  "feeds_file (snd (poll_item lib env feed ex it h acc s)) = feeds_file s \<and>
   write_error (snd (poll_item lib env feed ex it h acc s)) = write_error s"
  by (simp add: poll_item_def Let_def case_prod_beta addTorrentUrl_def
      split: match_result.splits sum.splits)



lemma poll_items_file:
  "feeds_file (snd (poll_items lib env feed ex its acc s)) = feeds_file s \<and>
   write_error (snd (poll_items lib env feed ex its acc s)) = write_error s"
proof (induction its arbitrary: acc s)
  case Nil
  then show ?case by simp
next
  case (Cons it its)
  show ?case
  proof (cases "getItemHash lib it")
    case (Inl e)
    then show ?thesis by simp
  next
    case (Inr h)
    with Cons.IH[of "fst (poll_item lib env feed ex it h acc s)"
        "snd (poll_item lib env feed ex it h acc s)"] poll_item_file[of lib env feed ex it h acc s]
    show ?thesis by simp
  qed
qed

lemma poll_items_seen:
  "fst (poll_items lib env feed ex its acc s) = Inr acc' \<Longrightarrow>
     (\<forall>it\<in>set its. \<exists>h. getItemHash lib it = Inr h \<and> seenItems (acc_data acc') h \<noteq> None) \<and>
     (\<forall>k. seenItems (acc_data acc) k \<noteq> None \<longrightarrow> seenItems (acc_data acc') k \<noteq> None) \<and>
     map feed_key (feeds (acc_data acc')) = map feed_key (feeds (acc_data acc))"
proof (induction its arbitrary: acc s)
  case Nil
  then show ?case by simp
next
  case (Cons it its)
  show ?case
  proof (cases "getItemHash lib it")
    case (Inl e)
    with Cons.prems show ?thesis by simp
  next
    case (Inr h)
    let ?p = "poll_item lib env feed ex it h acc s"
    from Cons.prems Inr have "fst (poll_items lib env feed ex its (fst ?p) (snd ?p)) = Inr acc'"
      by simp
    from Cons.IH[OF this] have ih:
      "\<forall>it\<in>set its. \<exists>h. getItemHash lib it = Inr h \<and> seenItems (acc_data acc') h \<noteq> None"
      "\<forall>k. seenItems (acc_data (fst ?p)) k \<noteq> None \<longrightarrow> seenItems (acc_data acc') k \<noteq> None"
      "map feed_key (feeds (acc_data acc')) = map feed_key (feeds (acc_data (fst ?p)))"
      by blast+
    from ih(2) poll_item_marks[of lib env feed ex it h acc s]
    have a: "seenItems (acc_data acc') h \<noteq> None" by blast
    from ih(2) poll_item_keeps[of acc _ lib env feed ex it h s]
    have b: "\<forall>k. seenItems (acc_data acc) k \<noteq> None \<longrightarrow> seenItems (acc_data acc') k \<noteq> None"
      by blast
    from ih(3) poll_item_keys[of lib env feed ex it h acc s]
    have c: "map feed_key (feeds (acc_data acc')) = map feed_key (feeds (acc_data acc))" by simp
    from ih(1) a b c Inr show ?thesis by simp
  qed
qed

lemma poll_items_all_seen:
  "\<forall>it\<in>set its. \<exists>h. getItemHash lib it = Inr h \<and> seenItems (acc_data acc) h \<noteq> None \<Longrightarrow>
     poll_items lib env feed ex its acc s
       = (Inr (acc\<lparr>skippedAlreadySeen := skippedAlreadySeen acc + length its\<rparr>), s)"
proof (induction its arbitrary: acc)
  case Nil
  then show ?case by simp
next
  case (Cons it its)
  from Cons.prems obtain h where h: "getItemHash lib it = Inr h" "seenItems (acc_data acc) h \<noteq> None"
    by auto
  let ?acc = "acc\<lparr>skippedAlreadySeen := Suc (skippedAlreadySeen acc)\<rparr>"
  from Cons.prems have "\<forall>it\<in>set its. \<exists>h. getItemHash lib it = Inr h \<and> seenItems (acc_data ?acc) h \<noteq> None"
    by simp
  from Cons.IH[OF this] h show ?case
    by (simp add: poll_item_seen)
qed


lemma parseFeed_effects:
  "\<exists>pre. log (snd (parseFeed lib env u s)) = log s @ pre \<and> list_all is_fetch_effect pre \<and>
         (\<forall>v. RpcAddUrl v \<notin> set pre)"
  by (simp add: parseFeed_def case_prod_beta is_fetch_effect_def split: sum.splits)

lemma parseFeed_file:
  "feeds_file (snd (parseFeed lib env u s)) = feeds_file s \<and>
   write_error (snd (parseFeed lib env u s)) = write_error s"
  by (simp add: parseFeed_def case_prod_beta split: sum.splits)

lemma load_total: "\<exists>data. load s = Inr data"
  by (simp add: load_def split: sum.splits)

lemma data_feeds_NotStore: "\<exists>e. data_feeds method (NotStore v) = Inl e"
  by (cases v) simp_all

lemma pollFeed_not_a_store:
  "load s = Inr (NotStore v) \<Longrightarrow> \<exists>e. pollFeed lib env i s = (Inl e, s)"
  using data_feeds_NotStore[of "''find''" v] by (auto simp add: pollFeed_def)

lemma load_stored: "feeds_file s = Inr (Json d) \<Longrightarrow> load s = Inr (Store d)"
  by (simp add: load_def load_try_def)

lemma save_eq:
  "save d s =
     (case write_error s of
        Some e \<Rightarrow> (Inl e, s)
      | None \<Rightarrow> (Inr (), s\<lparr>feeds_file := Inr (Json d), log := log s @ [WriteFile d]\<rparr>))"
  by (simp add: save_def JSON_stringify_def split: option.splits)

text \<open>The stages of \<open>pollFeed\<close>, named.\<close>

lemma pollFeed_stages:
  assumes ld: "load s = Inr (Store d)"
    and fd: "find (\<lambda>f. feed_id f = i) (feeds d) = Some feed"
    and pf: "fst (parseFeed lib env (feed_url feed) s) = Inr items"
    and gt: "fst (getTorrents env (snd (parseFeed lib env (feed_url feed) s))) = Inr ex"
    and sB: "sB = snd (getTorrents env (snd (parseFeed lib env (feed_url feed) s)))"
    and pi: "poll_items lib env feed ex items
               \<lparr>acc_data = d, acc_results = [], skippedAlreadySeen = 0, skippedNoMatch = 0,
                skippedAlreadyExists = 0, addedNew = 0, failedToAdd = 0\<rparr> sB = (Inr accL, sC)"
    and d': "d' = update_feed i (\<lambda>f. f\<lparr>last_poll := Some (fst (read_clock env sC))\<rparr>) (acc_data accL)"
  shows "pollFeed lib env i s =
           (case write_error s of
              Some e \<Rightarrow> (Inl e, snd (read_clock env sC))
            | None \<Rightarrow> (Inr (accL\<lparr>acc_data := d'\<rparr>),
                       (snd (read_clock env sC))\<lparr>feeds_file := Inr (Json d'),
                          log := log sC @ [WriteFile d']\<rparr>))"
proof -
  have "snd (poll_items lib env feed ex items
               \<lparr>acc_data = d, acc_results = [], skippedAlreadySeen = 0, skippedNoMatch = 0,
                skippedAlreadyExists = 0, addedNew = 0, failedToAdd = 0\<rparr> sB) = sC"
    by (simp only: pi snd_conv)
  with poll_items_file[of lib env feed ex items _ sB]
  have "write_error sC = write_error sB" by metis
  moreover have "write_error sB = write_error s"
    using parseFeed_file[of lib env "feed_url feed" s] by (simp add: sB getTorrents_def)
  ultimately have w: "write_error sC = write_error s" by simp
  show ?thesis
    unfolding d' using ld fd pf gt pi
    by (simp add: pollFeed_def case_prod_beta sB[symmetric] save_eq w split: option.splits)
qed

lemma first_poll_facts:
  assumes first: "pollFeed lib env i s = (Inr acc1, s1)"
  shows "\<exists>feed items.
           find (\<lambda>f. feed_id f = i) (feeds (acc_data acc1)) = Some feed \<and>
           fst (parseFeed lib env (feed_url feed) s) = Inr items \<and>
           (\<forall>it\<in>set items. \<exists>h. getItemHash lib it = Inr h \<and> seenItems (acc_data acc1) h \<noteq> None) \<and>
           feeds_file s1 = Inr (Json (acc_data acc1))"
proof -
  from load_total obtain data where "load s = Inr data" by blast
  then consider (other) v where "load s = Inr (NotStore v)"
    | (store) d where "load s = Inr (Store d)"
    by (cases data) auto
  then show ?thesis
  proof cases
  case other
  from pollFeed_not_a_store[OF this, of lib env i] first show ?thesis by simp
  next
  case ld: store
  show ?thesis
  proof (cases "find (\<lambda>f. feed_id f = i) (feeds d)")
    case None
    with ld first show ?thesis by (simp add: pollFeed_def)
  next
    case (Some feed)
    let ?pf = "parseFeed lib env (feed_url feed) s"
    show ?thesis
    proof (cases "fst ?pf")
      case (Inl e)
      with ld Some first show ?thesis by (simp add: pollFeed_def case_prod_beta)
    next
      case (Inr items)
      let ?gt = "getTorrents env (snd ?pf)"
      show ?thesis
      proof (cases "fst ?gt")
        case (Inl e)
        with ld Some Inr first show ?thesis by (simp add: pollFeed_def case_prod_beta)
      next
        case gt: (Inr ex)
        let ?acc0 = "\<lparr>acc_data = d, acc_results = [], skippedAlreadySeen = 0, skippedNoMatch = 0,
                skippedAlreadyExists = 0, addedNew = 0, failedToAdd = 0\<rparr>"
        let ?pi = "poll_items lib env feed ex items ?acc0 (snd ?gt)"
        show ?thesis
        proof (cases "fst ?pi")
          case (Inl e)
          with ld Some Inr gt first show ?thesis by (simp add: pollFeed_def case_prod_beta)
        next
          case pi: (Inr accL)
          define d' where
            "d' = update_feed i (\<lambda>f. f\<lparr>last_poll := Some (fst (read_clock env (snd ?pi)))\<rparr>)
                    (acc_data accL)"
          have pieq: "?pi = (Inr accL, snd ?pi)" using pi by (simp add: prod_eq_iff)
          note st = pollFeed_stages[OF ld Some Inr gt refl pieq d'_def]
          from poll_items_seen[OF pi] have seen:
            "\<forall>it\<in>set items. \<exists>h. getItemHash lib it = Inr h \<and> seenItems (acc_data accL) h \<noteq> None"
            and keys: "map feed_key (feeds (acc_data accL)) = map feed_key (feeds d)"
            by simp_all
          have keys': "map feed_key (feeds d') = map feed_key (feeds d)"
            using keys by (simp add: d'_def update_feed_keys feed_key_def)
          show ?thesis
          proof (cases "write_error s")
            case None
            with st first have a: "acc1 = accL\<lparr>acc_data := d'\<rparr>"
              and f: "feeds_file s1 = Inr (Json d')"
              by auto
            from find_same_keys[OF keys'[symmetric] Some] obtain feed' where
              f': "find (\<lambda>f. feed_id f = i) (feeds d') = Some feed'" "feed_key feed' = feed_key feed"
              by blast
            from f'(2) have "feed_url feed' = feed_url feed" by (simp add: feed_key_def)
            with f'(1) Inr seen a f show ?thesis by (simp add: d'_def)
          next
            case (Some e)
            with st first show ?thesis by simp
          qed
        qed
      qed
    qed
  qed
  qed
qed

lemma all_seen_poll:
  assumes ld: "load s = Inr (Store d)"
    and fd: "find (\<lambda>f. feed_id f = i) (feeds d) = Some feed"
    and pf: "fst (parseFeed lib env (feed_url feed) s) = Inr items"
    and seen: "\<forall>it\<in>set items. \<exists>h. getItemHash lib it = Inr h \<and> seenItems d h \<noteq> None"
  shows "(\<forall>u. RpcAddUrl u \<notin> set (drop (length (log s)) (log (snd (pollFeed lib env i s))))) \<and>
         (case fst (pollFeed lib env i s) of
            Inl e \<Rightarrow> feeds_file (snd (pollFeed lib env i s)) = feeds_file s
          | Inr acc \<Rightarrow>
              acc_results acc = [] \<and> addedNew acc = 0 \<and> failedToAdd acc = 0 \<and>
              skippedNoMatch acc = 0 \<and> skippedAlreadyExists acc = 0 \<and>
              skippedAlreadySeen acc = length items \<and>
              map matched_count (feeds (acc_data acc)) = map matched_count (feeds d) \<and>
              seenItems (acc_data acc) = seenItems d \<and>
              feeds_file (snd (pollFeed lib env i s)) = Inr (Json (acc_data acc)))"
proof -
  let ?pf = "parseFeed lib env (feed_url feed) s"
  let ?gt = "getTorrents env (snd ?pf)"
  from parseFeed_effects[of lib env "feed_url feed" s] obtain pre where pre:
    "log (snd ?pf) = log s @ pre" "\<forall>v. RpcAddUrl v \<notin> set pre" by blast
  have pfile: "feeds_file (snd ?pf) = feeds_file s" using parseFeed_file by blast
  have glog: "log (snd ?gt) = log s @ pre @ [RpcGetAll]" using pre(1)
    by (simp add: getTorrents_def)
  have gfile: "feeds_file (snd ?gt) = feeds_file s" using pfile
    by (simp add: getTorrents_def)
  show ?thesis
  proof (cases "fst ?gt")
    case (Inl e)
    with ld fd pf have "pollFeed lib env i s = (Inl e, snd ?gt)"
      by (simp add: pollFeed_def case_prod_beta)
    with glog gfile pre(2) show ?thesis by simp
  next
    case (Inr ex)
    let ?acc0 = "\<lparr>acc_data = d, acc_results = [], skippedAlreadySeen = 0, skippedNoMatch = 0,
                skippedAlreadyExists = 0, addedNew = 0, failedToAdd = 0\<rparr>"
    let ?accL = "?acc0\<lparr>skippedAlreadySeen := skippedAlreadySeen ?acc0 + length items\<rparr>"
    have "\<forall>it\<in>set items. \<exists>h. getItemHash lib it = Inr h \<and> seenItems (acc_data ?acc0) h \<noteq> None"
      using seen by simp
    from poll_items_all_seen[OF this, of env feed ex "snd ?gt"]
    have pi: "poll_items lib env feed ex items ?acc0 (snd ?gt) = (Inr ?accL, snd ?gt)" .
    define d' where
      "d' = update_feed i (\<lambda>f. f\<lparr>last_poll := Some (fst (read_clock env (snd ?gt)))\<rparr>)
              (acc_data ?accL)"
    note st = pollFeed_stages[OF ld fd pf Inr refl pi d'_def]
    have counts: "map matched_count (feeds d') = map matched_count (feeds d)"
      by (simp add: d'_def update_feed_def update_first_counts)
    have sd: "seenItems d' = seenItems d" by (simp add: d'_def)
    show ?thesis
    proof (cases "write_error s")
      case None
      with st have "pollFeed lib env i s =
          (Inr (?accL\<lparr>acc_data := d'\<rparr>),
           (snd (read_clock env (snd ?gt)))\<lparr>feeds_file := Inr (Json d'),
              log := log (snd ?gt) @ [WriteFile d']\<rparr>)"
        by simp
      with glog pre(2) counts sd show ?thesis by simp
    next
      case (Some e)
      with st have "pollFeed lib env i s = (Inl e, snd (read_clock env (snd ?gt)))"
        by simp
      with glog gfile pre(2) show ?thesis by simp
    qed
  qed
qed

subsection \<open>The polling fixture\<close>

lemma feed_parse:
  "parseFeed demo_lib feed_env ''http://feeds.example/rss'' s
     = (Inr [demo_item], s\<lparr>log := log s @ [DnsLookup ''feeds.example'', HttpFetch ''http://feeds.example/rss'']\<rparr>)"
proof -
  have p: "\<not> isPrivateIP ''93.184.216.34''"
    by (simp add: isPrivateIP_def PRIVATE_IP_RANGES_def class_b_octets_def startsWith_def
        startsWith_ci_def lower_char_def)
  have u: "URL_parse demo_lib ''http://feeds.example/rss''
      = Inr \<lparr>protocol = ''http:'', hostname = ''feeds.example''\<rparr>"
    by (simp add: demo_lib_def)
  have g: "demo_item\<lparr>guid := js_or (guid demo_item) (link demo_item)\<rparr> = demo_item"
    by (simp add: demo_item_def js_or_def)
  show ?thesis
    using p by (simp add: parseFeed_def u case_prod_beta call_def feed_env_def g)
qed

lemma feed_document:
  "fst (parseFeed lib feed_env u s) = fst (parseFeed lib feed_env u s')"
  by (simp add: parseFeed_def case_prod_beta feed_env_def split: sum.splits)

lemma feed_match:
  "matchesRules demo_lib demo_item demo_rules = Matched ''http://t.example/1.torrent''"
  by (simp add: matchesRules_def find_torrent_enclosure_def is_torrent_enclosure_def
      demo_item_def demo_rules_def demo_lib_def string_eval Let_def)

lemma feed_hash: "getItemHash demo_lib demo_item = Inr ''guid-1''"
  by (simp add: getItemHash_def js_or_def demo_item_def demo_lib_def)

lemma feed_first_poll:
  "\<exists>a. fst (pollFeed demo_lib feed_env 1 feed_start) = Inr a \<and>
        addedNew a = 1 \<and>
        acc_results a = [AddSucceeded (Some ''Show.S01E01.mkv'') 9] \<and>
        map matched_count (feeds (acc_data a)) = [1, 0] \<and>
        map_option feed_url (find (\<lambda>f. feed_id f = 1) (feeds (acc_data a)))
          = Some ''http://feeds.example/rss'' \<and>
        seenItems (acc_data a) ''guid-1'' \<noteq> None \<and>
        write_error (snd (pollFeed demo_lib feed_env 1 feed_start)) = None \<and>
        feeds_file (snd (pollFeed demo_lib feed_env 1 feed_start)) = Inr (Json (acc_data a)) \<and>
        log (snd (pollFeed demo_lib feed_env 1 feed_start))
          = [DnsLookup ''feeds.example'', HttpFetch ''http://feeds.example/rss'', RpcGetAll,
             MarkSeen ''guid-1'', RpcAddUrl ''http://t.example/1.torrent'',
             WriteFile (acc_data a)]"
proof -
  have l: "load feed_start = Inr (Store demo_store)"
    by (simp add: load_def load_try_def feed_start_def startup_def)
  have f: "find (\<lambda>f. feed_id f = 1) (feeds demo_store) = Some (demo_feed 1)"
    by (simp add: demo_store_def demo_feed_def)
  have t: "title demo_item = Some ''Show.S01E01.mkv''" by (simp add: demo_item_def)
  have ur: "feed_url (demo_feed 1) = ''http://feeds.example/rss''"
    and ru: "feed_rules (demo_feed 1) = demo_rules" and fi: "feed_id (demo_feed 1) = 1"
    by (simp_all add: demo_feed_def)
  have sn: "seenItems demo_store ''guid-1'' = None" by (simp add: demo_store_def)
  have fs: "feeds demo_store = [demo_feed 1, demo_feed 2]" by (simp add: demo_store_def)
  have f2: "feed_id (demo_feed 2) = 2" "matched_count (demo_feed 2) = 0"
    "matched_count (demo_feed 1) = 0" "feed_url (demo_feed 2) = ''http://feeds.example/rss''"
    by (simp_all add: demo_feed_def)
  show ?thesis
    by (simp add: pollFeed_def l f ur feed_parse getTorrents_def case_prod_beta)
       (simp add: poll_item_def feed_hash sn ru fi feed_match t addTorrentUrl_def
          setTorrentMetadata_def Let_def rpc_def call_def read_clock_def feed_env_def save_def
          JSON_stringify_def feed_start_def startup_def case_prod_beta update_feed_def fs f2 ur)
qed

text \<open>In the fixture's world a poll of a feed whose item is already in the ledger
  completes.\<close>

lemma feed_repoll:
  assumes stored: "feeds_file s = Inr (Json d)"
    and w: "write_error s = None"
    and fd: "find (\<lambda>f. feed_id f = i) (feeds d) = Some feed"
    and pf: "fst (parseFeed demo_lib feed_env (feed_url feed) s) = Inr [demo_item]"
    and seen: "seenItems d ''guid-1'' \<noteq> None"
  shows "\<exists>a. fst (pollFeed demo_lib feed_env i s) = Inr a"
proof -
  let ?pf = "parseFeed demo_lib feed_env (feed_url feed) s"
  let ?gt = "getTorrents feed_env (snd ?pf)"
  let ?acc0 = "\<lparr>acc_data = d, acc_results = [], skippedAlreadySeen = 0, skippedNoMatch = 0,
                skippedAlreadyExists = 0, addedNew = 0, failedToAdd = 0\<rparr>"
  let ?accL = "?acc0\<lparr>skippedAlreadySeen := skippedAlreadySeen ?acc0 + length [demo_item]\<rparr>"
  have ld: "load s = Inr (Store d)" using stored by (rule load_stored)
  have gt: "fst ?gt = Inr []" by (simp add: getTorrents_def feed_env_def)
  have "\<forall>it\<in>set [demo_item]. \<exists>h. getItemHash demo_lib it = Inr h \<and> seenItems (acc_data ?acc0) h \<noteq> None"
    using seen by (simp add: feed_hash)
  from poll_items_all_seen[OF this, of feed_env feed "[]" "snd ?gt"]
  have pi: "poll_items demo_lib feed_env feed [] [demo_item] ?acc0 (snd ?gt) = (Inr ?accL, snd ?gt)" .
  from pollFeed_stages[OF ld fd pf gt refl pi refl] w show ?thesis by simp
qed

section \<open>The claims\<close>

subsection \<open>The matcher\<close>

text \<open>
  Where the first reference that \<open>find_torrent_enclosure\<close> accepts has a URL, or it
  accepts none, \<open>matchesRules\<close> gives what the specification's three checks give in their
  order.
\<close>

lemma find_conj_Some:
  "find P xs = Some x \<Longrightarrow> Q x \<Longrightarrow> (\<And>y. P' y = P y) \<Longrightarrow> find (\<lambda>y. P' y \<and> Q y) xs = Some x"
  by (induction xs) (auto split: if_splits)

lemma find_conj_None:
  "find P xs = None \<Longrightarrow> (\<And>y. P' y = P y) \<Longrightarrow> find (\<lambda>y. P' y \<and> Q y) xs = None"
  by (induction xs) (auto split: if_splits)

lemma spec_torrent_reference_eq: "spec_torrent_reference e = is_torrent_enclosure e"
  by (cases "enc_url e")
     (simp_all add: spec_torrent_reference_def is_torrent_enclosure_def spec_torrent_mime_def
        spec_torrent_extension_def endsWith_def)

lemma spec_markers_eq:
  "list_ex (\<lambda>m. sublist m l) spec_download_markers = has_download_marker l"
  by (simp add: spec_download_markers_def has_download_marker_def includes_str_def)

lemma spec_link_url_eq:
  "spec_link_url it =
     (if truthy (link it) \<and> endsWith (js_string (link it)) ''.torrent'' then link it
      else if truthy (link it) \<and> has_download_marker (js_string (link it)) then link it
      else None)"
  by (cases "link it")
     (simp_all add: spec_link_url_def spec_markers_eq spec_torrent_extension_def endsWith_def)

lemma matchesRules_refines_specification:
  assumes re: "RegExp lib (regex r) ''i'' = Inr test"
    and url: "case find_torrent_enclosure it of None \<Rightarrow> True | Some e \<Rightarrow> truthy (enc_url e)"
  shows "matchesRules lib it r = spec_matchesRule test lib it r"
proof (cases "test (js_string (title it))")
  case False
  with re show ?thesis
    by (simp add: matchesRules_def spec_matchesRule_def)
next
  case True
  show ?thesis
  proof (cases "find_torrent_enclosure it")
    case None
    then have "spec_url_reference it = None"
      by (auto simp add: find_torrent_enclosure_def spec_url_reference_def
          spec_torrent_reference_eq intro: find_conj_None split: option.splits)
    then have "spec_download_url it = spec_link_url it" "spec_declared_size lib it = None"
      by (simp_all add: spec_download_url_def spec_declared_size_def)
    with re True None show ?thesis
      by (cases "link it")
         (simp_all add: matchesRules_def spec_matchesRule_def spec_link_url_eq Let_def)
  next
    case (Some e)
    with url obtain u where u: "enc_url e = Some u" "u \<noteq> []"
      by (cases "enc_url e") auto
    then have "spec_has_url e" by (simp add: spec_has_url_def)
    with Some have "spec_url_reference it = Some e"
      by (auto simp add: find_torrent_enclosure_def spec_url_reference_def
          spec_torrent_reference_eq intro: find_conj_Some split: option.splits)
    then have "spec_download_url it = Some u"
      "spec_declared_size lib it
         = (case enc_length e of None \<Rightarrow> None
            | Some n \<Rightarrow> if n = [] then None else parseInt lib n)"
      using u by (simp_all add: spec_download_url_def spec_declared_size_def)
    with re True Some u show ?thesis
      by (cases "enc_length e")
         (auto simp add: matchesRules_def spec_matchesRule_def Let_def split: option.splits)
  qed
qed

text \<open>
  C4 fails where the first reference of torrent media type has no URL and a later
  reference has one. Method 1 of \<open>matchesRules\<close> takes the first reference that its
  predicate accepts, reads no URL from it and never looks at the second; the link is no
  download, so the reason is \<^verbatim>\<open>no-torrent-link\<close>. By the priority order of the
  specification a download URL is derivable from the second reference, its declared size
  is inside the range and the item matches.
\<close>

theorem matchesRules_misses_later_reference:
  "matchesRules demo_lib two_reference_item demo_rules = NoMatch ''no-torrent-link'' \<and>
   spec_download_url two_reference_item = Some ''http://t.example/1.torrent'' \<and>
   spec_matchesRule (\<lambda>t. includes_str (map lower_char t) (map lower_char ''s01e01''))
     demo_lib two_reference_item demo_rules = Matched ''http://t.example/1.torrent''"
  by (simp add: matchesRules_def find_torrent_enclosure_def is_torrent_enclosure_def
      has_download_marker_def spec_matchesRule_def spec_download_url_def
      spec_url_reference_def spec_torrent_reference_def spec_has_url_def
      spec_declared_size_def spec_torrent_mime_def spec_torrent_extension_def
      spec_link_url_def spec_download_markers_def two_reference_item_def demo_rules_def
      demo_lib_def string_eval suffix_to_prefix sublist_Cons_right Let_def)

subsection \<open>The feed store\<close>

text \<open>
  C8, as amended. \<open>load\<close> never throws, and what it returns is decided by the file alone.
  When the file cannot be read, or its text is not JSON, \<open>load\<close> returns the empty valid
  state: no feeds, an empty seen-ledger, next identifier 1. When the text is JSON,
  \<open>load\<close> returns the parsed value as it is: a store of the right shape, and equally
  \<^verbatim>\<open>null\<close>, a number, a string, an array or \<^verbatim>\<open>{}\<close>, which are not replaced by the
  empty state.
\<close>

theorem load_returns_parsed_value_or_empty_state:
  "load s =
     Inr (case feeds_file s of
            Inl e \<Rightarrow> Store \<lparr>feeds = [], seenItems = Map.empty, nextId = 1\<rparr>
          | Inr (Garbage e) \<Rightarrow> Store \<lparr>feeds = [], seenItems = Map.empty, nextId = 1\<rparr>
          | Inr (Json d) \<Rightarrow> Store d
          | Inr (Json_other v) \<Rightarrow> NotStore v)"
  by (simp add: load_def load_try_def empty_store_def split: sum.splits json_text.splits)

text \<open>
  C8 as stated fails for a malformed store that is still JSON. With \<^verbatim>\<open>null\<close> in the
  file, \<open>load\<close> returns \<^verbatim>\<open>null\<close>, not the empty state, and the next caller throws a
  \<^verbatim>\<open>TypeError\<close>.
\<close>

theorem null_store_is_not_reinitialised:
  "load (startup () (Inr (Json_other JNull))) = Inr (NotStore JNull) \<and>
   load (startup () (Inr (Json_other JNull)))
     \<noteq> Inr (Store \<lparr>feeds = [], seenItems = Map.empty, nextId = 1\<rparr>) \<and>
   fst (deleteFeed 1 (startup () (Inr (Json_other JNull))))
     = Inl (Error ''Cannot read properties of null (reading feeds)'')"
  by (simp add: load_def load_try_def deleteFeed_def startup_def)

text \<open>
  C9. When the store's file holds a store with a feed of the identifier and the file can be
  written, \<open>deleteFeed\<close> succeeds and writes the store back with exactly one feed record
  gone, the first one with that identifier; the other feeds keep their order, and the
  seen-ledger and the next identifier are written back as they were read.
\<close>

theorem deleteFeed_frame:
  assumes stored: "feeds_file s = Inr (Json d)"
    and writable: "write_error s = None"
    and present: "f \<in> set (feeds d)" "feed_id f = i"
  shows "\<exists>k. k < length (feeds d) \<and> feed_id (feeds d ! k) = i \<and>
             (\<forall>j<k. feed_id (feeds d ! j) \<noteq> i) \<and>
             fst (deleteFeed i s) = Inr True \<and>
             feeds_file (snd (deleteFeed i s))
               = Inr (Json \<lparr>feeds = take k (feeds d) @ drop (Suc k) (feeds d),
                             seenItems = seenItems d, nextId = nextId d\<rparr>)"
proof -
  from findIndex_ex[of f "feeds d" "\<lambda>f. feed_id f = i"] present
  obtain k where k: "findIndex (\<lambda>f. feed_id f = i) (feeds d) = Some k" by auto
  have "k < length (feeds d)" using findIndex_less[OF k] .
  moreover have "feed_id (feeds d ! k) = i" using findIndex_holds[OF k] .
  moreover have "\<forall>j<k. feed_id (feeds d ! j) \<noteq> i" using findIndex_first[OF k] by blast
  moreover have ld: "load s = Inr (Store d)"
    using stored by (simp add: load_def load_try_def)
  have "deleteFeed i s =
          (Inr True, s\<lparr>feeds_file := Inr (Json (d\<lparr>feeds := splice1 k (feeds d)\<rparr>)),
                       log := log s @ [WriteFile (d\<lparr>feeds := splice1 k (feeds d)\<rparr>)]\<rparr>)"
    using ld writable k by (simp add: deleteFeed_def save_def JSON_stringify_def)
  then have "fst (deleteFeed i s) = Inr True"
    and "feeds_file (snd (deleteFeed i s))
               = Inr (Json \<lparr>feeds = take k (feeds d) @ drop (Suc k) (feeds d),
                             seenItems = seenItems d, nextId = nextId d\<rparr>)"
    by (simp_all add: splice1_def)
  ultimately show ?thesis by blast
qed

theorem deleteFeed_frame_witness:
  "fst (deleteFeed 1 (startup () (Inr (Json demo_store)))) = Inr True \<and>
   feeds_file (snd (deleteFeed 1 (startup () (Inr (Json demo_store)))))
     = Inr (Json \<lparr>feeds = [demo_feed 2], seenItems = seenItems demo_store, nextId = 3\<rparr>)"
proof -
  have a: "feeds_file (startup () (Inr (Json demo_store))) = Inr (Json demo_store)"
    and b: "write_error (startup () (Inr (Json demo_store)) :: unit sys) = None"
    and c: "demo_feed 1 \<in> set (feeds demo_store)" and d: "feed_id (demo_feed 1) = 1"
    by (simp_all add: startup_def demo_store_def demo_feed_def)
  from deleteFeed_frame[OF a b c d]
  obtain k where k: "k < length (feeds demo_store)" "feed_id (feeds demo_store ! k) = 1"
      "\<forall>j<k. feed_id (feeds demo_store ! j) \<noteq> 1"
      "fst (deleteFeed 1 (startup () (Inr (Json demo_store)))) = Inr True"
      "feeds_file (snd (deleteFeed 1 (startup () (Inr (Json demo_store)))))
         = Inr (Json \<lparr>feeds = take k (feeds demo_store) @ drop (Suc k) (feeds demo_store),
                       seenItems = seenItems demo_store, nextId = nextId demo_store\<rparr>)"
    by blast
  have "k = 0"
  proof (rule ccontr)
    assume "k \<noteq> 0"
    then have "0 < k" by simp
    with k(3) have "feed_id (feeds demo_store ! 0) \<noteq> 1" by blast
    then show False by (simp add: demo_store_def demo_feed_def)
  qed
  with k(4,5) show ?thesis by (simp add: demo_store_def)
qed

subsection \<open>The torrent engine client\<close>

text \<open>
  C1. What the code does where the claim asks for an error: when the daemon cannot be
  reached, so that both the lookup before the removal and the daemon's remove call fail,
  \<open>removeTorrent\<close> makes these two calls and nothing else, and returns
  \<^verbatim>\<open>{ success: true }\<close>. (\<open>removeTorrent_result\<close>: it returns that for every
  world.)
\<close>

theorem removeTorrent_reports_success_when_unreachable:
  assumes "fst (rpc_get env i (world s)) = Inl e1"
    and "fst (rpc_remove env i d (snd (rpc_get env i (world s)))) = Inl e2"
  shows "fst (removeTorrent env i d s) = Inr \<lparr>success = True\<rparr> \<and>
         log (snd (removeTorrent env i d s)) = log s @ [RpcGet i, RpcRemove i d]"
proof -
  have g: "fst (getTorrentDetails env i s) = Inl e1"
    and gs: "snd (getTorrentDetails env i s) = snd (rpc (rpc_get env i) (RpcGet i) s)"
    using assms(1) by (simp_all add: getTorrentDetails_def case_prod_beta)
  have n: "normal_removal env i d (snd (getTorrentDetails env i s))
      = (False, snd (rpc (rpc_remove env i d) (RpcRemove i d) (snd (rpc (rpc_get env i) (RpcGet i) s))))"
    using assms(2) by (simp add: gs normal_removal_def case_prod_beta)
  show ?thesis
    by (simp add: removeTorrent_def Let_def g n)
qed

theorem removeTorrent_reports_success_when_unreachable_witness:
  "fst (removeTorrent dead_env 7 True (startup () (Inr (Json empty_store))))
     = Inr \<lparr>success = True\<rparr> \<and>
   log (snd (removeTorrent dead_env 7 True (startup () (Inr (Json empty_store)))))
     = [RpcGet 7, RpcRemove 7 True]"
  using removeTorrent_reports_success_when_unreachable
    [of dead_env 7 "startup () (Inr (Json empty_store))" refused True refused]
  by (simp add: dead_env_def startup_def)

text \<open>
  C7. From the start of the process and through any sequence of removals, direct
  scheduling calls, timeout expiries and callback completions, at most one restart is on
  its way (pending or running). A scheduling call made while one is scheduled changes
  nothing and returns the promise already stored. A removal that finds the torrent, fails
  to remove it and knows its hash leaves a restart scheduled. And when the events so far
  are all inside the debounce window and a restart is scheduled, exactly one timeout is
  pending, no restart command has been issued, and after the timeout fires and its
  callback finishes exactly one restart command has been issued and nothing is scheduled.
\<close>

theorem restart_is_debounced:
  "length (timers (run env evs (startup w f))) + restarting (run env evs (startup w f)) \<le> 1 \<and>
   (restartTimeout s \<noteq> None \<longrightarrow> scheduleTransmissionRestart s = (restartPromise s, s)) \<and>
   (fst (getTorrentDetails env i s) = Inr t \<and> hashString t \<noteq> [] \<and>
      \<not> fst (normal_removal env i d (snd (getTorrentDetails env i s)))
      \<longrightarrow> restartTimeout (snd (removeTorrent env i d s)) \<noteq> None) \<and>
   (list_all in_window evs \<and> restartTimeout (run env evs (startup w f)) \<noteq> None \<longrightarrow>
      length (timers (run env evs (startup w f))) = 1 \<and>
      restarts_issued (run env evs (startup w f)) = 0 \<and>
      restarts_issued (run env (evs @ [TimerFires, RestartFinishes]) (startup w f)) = 1 \<and>
      restartTimeout (run env (evs @ [TimerFires, RestartFinishes]) (startup w f)) = None)"
proof -
  let ?s = "run env evs (startup w f)"
  have ok0: "restart_ok (restart_view (startup w f))"
    by (simp add: view_startup restart_ok_def)
  have q0: "quiet (restart_view (startup w f))"
    by (simp add: view_startup quiet_def)
  have a: "length (timers ?s) + restarting ?s \<le> 1"
    using ok_run[OF ok0, of env evs] by (simp add: restart_ok_def restart_view_def)
  have b: "restartTimeout s \<noteq> None \<longrightarrow> scheduleTransmissionRestart s = (restartPromise s, s)"
    by (cases "restartTimeout s") (simp_all add: scheduleTransmissionRestart_def)
  have c: "fst (getTorrentDetails env i s) = Inr t \<and> hashString t \<noteq> [] \<and>
      \<not> fst (normal_removal env i d (snd (getTorrentDetails env i s)))
      \<longrightarrow> restartTimeout (snd (removeTorrent env i d s)) \<noteq> None"
    using workaround_schedules[of env i s t d] by blast
  have d: "length (timers ?s) = 1 \<and> restarts_issued ?s = 0 \<and>
      restarts_issued (run env (evs @ [TimerFires, RestartFinishes]) (startup w f)) = 1 \<and>
      restartTimeout (run env (evs @ [TimerFires, RestartFinishes]) (startup w f)) = None"
    if w: "list_all in_window evs" and p: "restartTimeout ?s \<noteq> None"
  proof -
    have q: "quiet (restart_view ?s)" using quiet_run[OF q0 w] .
    with p have "length (timers ?s) = 1" "restarts_issued ?s = 0"
      by (auto simp: quiet_def restart_view_def)
    moreover from fire_and_finish[OF q p, of env]
    have "restarts_issued (run env (evs @ [TimerFires, RestartFinishes]) (startup w f)) = 1"
      "restartTimeout (run env (evs @ [TimerFires, RestartFinishes]) (startup w f)) = None"
      by (simp_all add: run_append)
    ultimately show ?thesis by blast
  qed
  from a b c d show ?thesis by blast
qed

theorem restart_is_debounced_witness:
  "length (timers (run stuck_env three_removals (startup () (Inr (Json empty_store))))) = 1 \<and>
   restarts_issued (run stuck_env (three_removals @ [TimerFires, RestartFinishes])
      (startup () (Inr (Json empty_store)))) = 1"
proof -
  let ?s0 = "startup () (Inr (Json empty_store)) :: unit sys"
  have w: "list_all in_window three_removals" by (simp add: three_removals_def)
  have "restartTimeout (run stuck_env [RemoveRequest 2 True, RemoveRequest 3 True]
           (step stuck_env (RemoveRequest 1 True) ?s0)) \<noteq> None"
    by (rule pending_run[OF stuck_first]) simp
  then have p: "restartTimeout (run stuck_env three_removals ?s0) \<noteq> None"
    by (simp add: three_removals_def)
  from restart_is_debounced[of stuck_env three_removals "()" "Inr (Json empty_store)"] w p
  show ?thesis by blast
qed

subsection \<open>The disk pressure monitor\<close>

text \<open>
  What holds of C10. Whenever the measurement of a path fails, \<open>getDiskUsage\<close> returns
  the fixed placeholder, whose free percentage is exactly 10. The threshold of a monitor
  built without \<^verbatim>\<open>DISK_THRESHOLD\<close> is 10, given that \<^verbatim>\<open>parseFloat('10')\<close> is 10. So
  an eviction pass with that threshold whose measurement fails reports the disk above
  threshold: it has made the session query and the one measurement, no other call, and
  has removed nothing.
\<close>

lemma getDiskUsage_placeholder:
  assumes "fst (fs_statfs env p (world s)) = Inl e"
  shows "fst (getDiskUsage env p s)
           = \<lparr>du_total = 1000000000000, du_used = 900000000000, du_free = 100000000000,
              freePercent = Some 10\<rparr>"
  using assms by (simp add: getDiskUsage_def case_prod_beta)

lemma default_threshold: "parseFloat ''10'' = Some 10 \<Longrightarrow> DiskMonitor_threshold parseFloat None = Some 10"
  by (simp add: DiskMonitor_threshold_def js_or_def)

lemma measurement_failure_reports_above_threshold:
  assumes ten: "parseFloat ''10'' = Some 10"
    and session: "fst (getServerStats env s) = Inr sess"
    and dir: "dir = (if download_dir sess \<noteq> [] then download_dir sess else ''/downloads'')"
    and fails: "fst (fs_statfs env dir (world (snd (getServerStats env s)))) = Inl e"
  shows "fst (autoRemoveOldestTorrents env (DiskMonitor_threshold parseFloat None) s)
           = Inr AboveThreshold \<and>
         log (snd (autoRemoveOldestTorrents env (DiskMonitor_threshold parseFloat None) s))
           = log s @ [RpcSession, Statfs dir]"
proof -
  have "freePercent (fst (getDiskUsage env dir (snd (getServerStats env s)))) = Some 10"
    using getDiskUsage_failure[OF fails] by simp
  moreover have "log (snd (getDiskUsage env dir (snd (getServerStats env s))))
      = log s @ [RpcSession, Statfs dir]"
    by (simp add: getDiskUsage_def case_prod_beta getServerStats_def split: sum.splits)
  ultimately show ?thesis
    using session
    by (simp add: default_threshold[of parseFloat, OF ten] autoRemoveOldestTorrents_def
        case_prod_beta Let_def dir[symmetric])
qed

text \<open>
  C10 fails in its middle clause: eviction does not run only when the free percentage is
  strictly below the threshold. On a file system that reports no blocks the measurement
  succeeds and \<^verbatim>\<open>freePercent\<close> is \<^verbatim>\<open>0 / 0\<close>, which is \<^verbatim>\<open>NaN\<close>: not below the
  threshold, and not at or above it either, so the guard
  \<^verbatim>\<open>freePercent >= this.threshold\<close> does not return. The pass with the default threshold
  goes on and removes the completed torrent.
\<close>

theorem unmeasurable_disk_is_evicted:
  "freePercent (fst (getDiskUsage zero_block_env ''/downloads'' zero_block_start)) = None \<and>
   \<not> js_lt (freePercent (fst (getDiskUsage zero_block_env ''/downloads'' zero_block_start)))
           (DiskMonitor_threshold parseFloat_demo None) \<and>
   fst (autoRemoveOldestTorrents zero_block_env (DiskMonitor_threshold parseFloat_demo None)
          zero_block_start)
     = Inr (Removed [\<lparr>re_id = 1, re_name = ''file'', re_size = 50\<rparr>]) \<and>
   log (snd (autoRemoveOldestTorrents zero_block_env (DiskMonitor_threshold parseFloat_demo None)
          zero_block_start))
     = [RpcSession, Statfs ''/downloads'', RpcGetAll, RpcGet 1, RpcRemove 1 True, Sleep 500,
        RpcGet 1, Statfs ''/downloads'']"
proof -
  have t: "DiskMonitor_threshold parseFloat_demo None = Some 10"
    by (simp add: DiskMonitor_threshold_def js_or_def parseFloat_demo_def)
  have u: "getDiskUsage zero_block_env p s
      = (\<lparr>du_total = 0, du_used = 0, du_free = 0, freePercent = None\<rparr>,
         s\<lparr>log := log s @ [Statfs p]\<rparr>)" for p s
    by (simp add: getDiskUsage_def call_def zero_block_env_def)
  have g: "getServerStats zero_block_env zero_block_start
      = (Inr \<lparr>download_dir = ''/downloads'', incomplete_dir = [], incomplete_dir_enabled = False\<rparr>,
         zero_block_start\<lparr>client := True, log := [RpcSession]\<rparr>)"
    by (simp add: getServerStats_def rpc_def call_def zero_block_start_def startup_def
        zero_block_env_def)
  have c: "getAutoRemovalCandidates zero_block_env
             (zero_block_start\<lparr>client := True, log := [RpcSession, Statfs ''/downloads'']\<rparr>)
      = (Inr [\<lparr>cand_torrent = stuck_torrent 1, cand_added_at = 100\<rparr>],
         zero_block_start\<lparr>client := True,
           log := [RpcSession, Statfs ''/downloads'', RpcGetAll]\<rparr>)"
    by (simp add: getAutoRemovalCandidates_def getTorrents_def rpc_def call_def read_clock_def
        case_prod_beta zero_block_start_def startup_def zero_block_env_def eligible_def
        stuck_torrent_def Let_def)
  have r: "removeTorrent zero_block_env 1 True
             (zero_block_start\<lparr>client := True,
                log := [RpcSession, Statfs ''/downloads'', RpcGetAll]\<rparr>)
      = (Inr \<lparr>success = True\<rparr>,
         zero_block_start\<lparr>client := True, world := False,
           log := [RpcSession, Statfs ''/downloads'', RpcGetAll, RpcGet 1, RpcRemove 1 True,
                   Sleep 500, RpcGet 1]\<rparr>)"
    by (simp add: removeTorrent_def Let_def getTorrentDetails_def normal_removal_def sleep_def
        rpc_def call_def zero_block_env_def zero_block_start_def startup_def case_prod_beta
        stuck_torrent_def)
  show ?thesis
    by (simp add: t u g autoRemoveOldestTorrents_def Let_def)
       (simp add: c r u entry_of_def deleteTorrentMetadata_def stuck_torrent_def)
qed



subsection \<open>The egress guard\<close>

text \<open>
  C5. What the code does where the claim asks for a rejection: the unique-local IPv6
  address fd12:3456:789a::1 matches none of \<open>PRIVATE_IP_RANGES\<close>, and \<open>parseFeed\<close>
  of a URL whose host resolves to it sends the request and returns the items.
\<close>

theorem unique_local_address_is_fetched:
  "\<not> isPrivateIP ''fd12:3456:789a::1'' \<and>
   log (snd (parseFeed demo_lib lan_env ''http://nas.example/rss'' (startup () (Inr (Json empty_store)))))
     = [DnsLookup ''nas.example'', HttpFetch ''http://nas.example/rss''] \<and>
   fst (parseFeed demo_lib lan_env ''http://nas.example/rss'' (startup () (Inr (Json empty_store))))
     = Inr []"
proof -
  have p: "\<not> isPrivateIP ''fd12:3456:789a::1''"
    by (simp add: isPrivateIP_def PRIVATE_IP_RANGES_def class_b_octets_def startsWith_def
        startsWith_ci_def lower_char_def)
  have u: "URL_parse demo_lib ''http://nas.example/rss''
      = Inr \<lparr>protocol = ''http:'', hostname = ''nas.example''\<rparr>"
    by (simp add: demo_lib_def)
  have d: "fst (dns_lookup lan_env h w) = Inr ''fd12:3456:789a::1''" for h w
    by (simp add: lan_env_def)
  have f: "fst (http_fetch lan_env x w)
      = Inr \<lparr>resp_ok = True, resp_status = ''200'', resp_body = Inr []\<rparr>" for x w
    by (simp add: lan_env_def)
  show ?thesis
    using p by (simp add: parseFeed_def u d f case_prod_beta startup_def)
qed

subsection \<open>Polling a feed\<close>




text \<open>
  C6. Let a first poll of a feed complete, and let a second poll of the same feed start
  from the store's file as the first one left it and fetch the same document. Then the
  second poll issues no download request. If it completes, it reports no result, every
  item is counted as already seen and every other counter is zero, and the store it
  writes has the matched-item counter of every feed and the seen-ledger as the first
  poll left them; if it fails, the store's file is as the first poll left it.
\<close>

theorem second_poll_adds_nothing:
  assumes first: "pollFeed lib env i s = (Inr acc1, s1)"
    and succession: "feeds_file s2 = feeds_file s1"
    and feed: "find (\<lambda>f. feed_id f = i) (feeds (acc_data acc1)) = Some feed"
    and same_document:
      "fst (parseFeed lib env (feed_url feed) s2) = fst (parseFeed lib env (feed_url feed) s)"
  shows "(\<forall>u. RpcAddUrl u \<notin> set (drop (length (log s2)) (log (snd (pollFeed lib env i s2))))) \<and>
         (case fst (pollFeed lib env i s2) of
            Inl e \<Rightarrow> feeds_file (snd (pollFeed lib env i s2)) = feeds_file s1
          | Inr acc2 \<Rightarrow>
              acc_results acc2 = [] \<and> addedNew acc2 = 0 \<and> failedToAdd acc2 = 0 \<and>
              skippedNoMatch acc2 = 0 \<and> skippedAlreadyExists acc2 = 0 \<and>
              (\<exists>items. fst (parseFeed lib env (feed_url feed) s2) = Inr items \<and>
                 skippedAlreadySeen acc2 = length items) \<and>
              map matched_count (feeds (acc_data acc2)) = map matched_count (feeds (acc_data acc1)) \<and>
              seenItems (acc_data acc2) = seenItems (acc_data acc1) \<and>
              feeds_file (snd (pollFeed lib env i s2)) = Inr (Json (acc_data acc2)))"
proof -
  from first_poll_facts[OF first] feed obtain items where f:
    "fst (parseFeed lib env (feed_url feed) s) = Inr items"
    "\<forall>it\<in>set items. \<exists>h. getItemHash lib it = Inr h \<and> seenItems (acc_data acc1) h \<noteq> None"
    "feeds_file s1 = Inr (Json (acc_data acc1))"
    by auto
  have ld: "load s2 = Inr (Store (acc_data acc1))"
    using succession f(3) by (simp add: load_stored)
  have pf: "fst (parseFeed lib env (feed_url feed) s2) = Inr items"
    using same_document f(1) by simp
  from all_seen_poll[OF ld feed pf f(2)] pf succession
  show ?thesis
    by (cases "fst (pollFeed lib env i s2)") auto
qed

theorem second_poll_adds_nothing_witness:
  "\<exists>acc1 acc2.
     fst (pollFeed demo_lib feed_env 1 feed_start) = Inr acc1 \<and> addedNew acc1 = 1 \<and>
     fst (pollFeed demo_lib feed_env 1 (snd (pollFeed demo_lib feed_env 1 feed_start))) = Inr acc2 \<and>
     addedNew acc2 = 0 \<and> acc_results acc2 = [] \<and> skippedAlreadySeen acc2 = 1 \<and>
     map matched_count (feeds (acc_data acc2)) = [1, 0] \<and>
     seenItems (acc_data acc2) = seenItems (acc_data acc1)"
proof -
  let ?r = "pollFeed demo_lib feed_env 1 feed_start"
  let ?r2 = "pollFeed demo_lib feed_env 1 (snd ?r)"
  from feed_first_poll obtain a where a: "fst ?r = Inr a" "addedNew a = 1"
    "map matched_count (feeds (acc_data a)) = [1, 0]"
    and url: "map_option feed_url (find (\<lambda>f. feed_id f = 1) (feeds (acc_data a)))
          = Some ''http://feeds.example/rss''"
    and seen: "seenItems (acc_data a) ''guid-1'' \<noteq> None"
    and w: "write_error (snd ?r) = None"
    and stored: "feeds_file (snd ?r) = Inr (Json (acc_data a))"
    by (elim exE conjE) (rule that)
  have first: "?r = (Inr a, snd ?r)" using a(1) by (simp add: prod_eq_iff)
  from url obtain f1 where fd: "find (\<lambda>f. feed_id f = 1) (feeds (acc_data a)) = Some f1"
    and u1: "feed_url f1 = ''http://feeds.example/rss''"
    by (cases "find (\<lambda>f. feed_id f = 1) (feeds (acc_data a))") simp_all
  have pf: "fst (parseFeed demo_lib feed_env (feed_url f1) (snd ?r)) = Inr [demo_item]"
    by (simp add: u1 feed_parse)
  from feed_repoll[OF stored w fd pf seen]
  obtain b where b: "fst ?r2 = Inr b" by (elim exE) (rule that)
  have doc: "fst (parseFeed demo_lib feed_env (feed_url f1) (snd ?r))
      = fst (parseFeed demo_lib feed_env (feed_url f1) feed_start)"
    by (rule feed_document)
  from second_poll_adds_nothing[OF first refl fd doc]
  have "addedNew b = 0 \<and> acc_results b = [] \<and> skippedAlreadySeen b = 1 \<and>
        map matched_count (feeds (acc_data b)) = [1, 0] \<and>
        seenItems (acc_data b) = seenItems (acc_data a)"
    by (simp add: b fd u1 feed_parse a(3))
  with a(1,2) b show ?thesis
    by (intro exI[of _ a] exI[of _ b]) simp
qed

end
